theory Spec2Isabelle
  imports Complex_Main
begin

section \<open>JavaScript values as the dashboard sees them\<close>

text \<open>
  A property of an object decoded from JSON is missing (reading it gives
  \<^verbatim>\<open>undefined\<close>), \<^verbatim>\<open>null\<close>, or a value. The interfaces of
  \<^verbatim>\<open>services/api.ts\<close> declare every analysis field optional (\<^verbatim>\<open>summary?: string\<close>,
  \<^verbatim>\<open>signal_strength?: number\<close>, ...). A number of the browser is an IEEE 754 double;
  a finite one is modelled by the real number it denotes (the two zeros are not told
  apart), and a numeric property holds the double the JSON parser has read.
\<close>

datatype 'a json = Missing | JNull | Given 'a

text \<open>A number computed in the browser can also be \<^verbatim>\<open>NaN\<close> or infinite.\<close>

datatype js_number = NaN | Fin real | PosInf | NegInf

subsection \<open>Rounding to a double\<close>

text \<open>Rounding to the nearest integer, a tie going to the even one.\<close>

definition rne :: "real \<Rightarrow> int" where
  "rne y =
     (let f = \<lfloor>y\<rfloor>; d = y - of_int f
      in if d < 1 / 2 then f else if 1 / 2 < d then f + 1 else if even f then f else f + 1)"

text \<open>
  The exponent of the binade of a magnitude \<open>a\<close>: the largest \<open>e\<close> from -1022 to 1023
  with \<open>2\<^sup>e \<le> a\<close>, and -1022 (the subnormal range) when there is none. It is searched
  downwards from 1023.
\<close>

fun binade :: "real \<Rightarrow> nat \<Rightarrow> int" where
  "binade a 0 = - 1022"
| "binade a (Suc n) = (if 2 powi (int n - 1021) \<le> a then int n - 1021 else binade a n)"

definition exponent :: "real \<Rightarrow> int" where
  "exponent a = binade a 2045"

text \<open>
  A magnitude rounded to 53 significant bits: in the binade of exponent \<open>e\<close> the doubles
  are the multiples of \<open>2\<^sup>e\<^sup>-\<^sup>5\<^sup>2\<close>, and the nearest one is taken, a tie going to the even
  multiple.
\<close>

definition fl_abs :: "real \<Rightarrow> real" where
  "fl_abs a = (let u = 2 powi (exponent a - 52) in u * of_int (rne (a / u)))"

text \<open>
  The double an arithmetic operation returns for the exact result \<open>x\<close>: \<open>x\<close> rounded to
  nearest, ties to even, and an infinity when the rounded magnitude reaches \<open>2\<^sup>1\<^sup>0\<^sup>2\<^sup>4\<close>.
\<close>

definition fl :: "real \<Rightarrow> js_number" where
  "fl x =
     (let r = fl_abs \<bar>x\<bar>
      in if 2 powi 1024 \<le> r then (if x < 0 then NegInf else PosInf)
         else Fin (if x < 0 then - r else r))"

subsection \<open>Operations on numbers\<close>

text \<open>\<^verbatim>\<open>ToNumber\<close> of a numeric property: \<^verbatim>\<open>undefined\<close> is NaN, \<^verbatim>\<open>null\<close> is 0.\<close>

fun to_number :: "real json \<Rightarrow> js_number" where
  "to_number Missing = NaN"
| "to_number JNull = Fin 0"
| "to_number (Given x) = Fin x"

fun is_negative :: "js_number \<Rightarrow> bool" where
  "is_negative (Fin x) = (x < 0)"
| "is_negative NegInf = True"
| "is_negative _ = False"

text \<open>
  \<^verbatim>\<open>a * b\<close>: the exact product of two doubles, rounded to a double; NaN when a factor
  is NaN or when an infinity meets 0; otherwise the infinity of the product's sign.
\<close>

fun js_mult :: "js_number \<Rightarrow> js_number \<Rightarrow> js_number" where
  "js_mult (Fin x) (Fin y) = fl (x * y)"
| "js_mult NaN b = NaN"
| "js_mult a NaN = NaN"
| "js_mult a b =
     (if a = Fin 0 \<or> b = Fin 0 then NaN
      else if is_negative a = is_negative b then PosInf else NegInf)"

text \<open>\<^verbatim>\<open>a < b\<close> on numbers: false as soon as one side is NaN.\<close>

fun js_lt :: "js_number \<Rightarrow> js_number \<Rightarrow> bool" where
  "js_lt (Fin x) (Fin y) = (x < y)"
| "js_lt NaN b = False"
| "js_lt a NaN = False"
| "js_lt a NegInf = False"
| "js_lt PosInf b = False"
| "js_lt a b = True"

text \<open>
  \<^verbatim>\<open>Math.round\<close>: the nearest integer, a tie going up; NaN and the infinities are
  returned as they are.
\<close>

fun Math_round :: "js_number \<Rightarrow> js_number" where
  "Math_round (Fin x) = Fin (of_int \<lfloor>x + 1 / 2\<rfloor>)"
| "Math_round a = a"

text \<open>
  \<^verbatim>\<open>x.toFixed(0)\<close>: the text \<^verbatim>\<open>NaN\<close>, \<^verbatim>\<open>Infinity\<close> or \<^verbatim>\<open>-Infinity\<close>, or an
  optional minus sign followed by the integer nearest to the magnitude of \<open>x\<close>, a tie
  taking the larger one. The result keeps the sign apart from the digits because
  \<^verbatim>\<open>(-0.1).toFixed(0)\<close> is the text \<^verbatim>\<open>-0\<close>. (From \<open>10\<^sup>2\<^sup>1\<close> on the browser prints the
  same number in exponent notation.)
\<close>

datatype fixed = FixedNaN | FixedInfinity bool | Fixed bool nat

fun toFixed0 :: "js_number \<Rightarrow> fixed" where
  "toFixed0 NaN = FixedNaN"
| "toFixed0 PosInf = FixedInfinity False"
| "toFixed0 NegInf = FixedInfinity True"
| "toFixed0 (Fin x) =
     (if x < 0 then Fixed True (nat \<lfloor>- x + 1 / 2\<rfloor>) else Fixed False (nat \<lfloor>x + 1 / 2\<rfloor>))"

text \<open>The number a \<^typ>\<open>fixed\<close> text denotes (none for \<^verbatim>\<open>NaN\<close> and the infinities).\<close>

fun fixed_number :: "fixed \<Rightarrow> int option" where
  "fixed_number (Fixed neg n) = Some (if neg then - int n else int n)"
| "fixed_number f = None"

section \<open>React children\<close>

text \<open>
  The elements the pages put behind a condition. Text that is always rendered (titles,
  sources, dates) and the colours of theme badges are left out of the model. A momentum
  indicator holds the class of its \<^verbatim>\<open>span\<close>, the name of its icon and the percentage;
  a sentiment badge holds the class chosen for it and its label.
\<close>

datatype bar = Bar nat string

datatype elem =
    FeaturedBadge
  | EmergingBadge
  | ThemeBadge string
  | SummaryBlock string
  | TakeawaysBlock "string list"
  | AuthorSpan string
  | RegionSpan string
  | ViewsSpan real
  | SentimentBadge string string
  | SignalMetric fixed
  | ConfidenceMetric fixed
  | ThemesBlock "string list"
  | SectorsBlock "string list"
  | MomentumIndicator string string fixed
  | SignalBars "bar list"

text \<open>The value of a JSX expression \<^verbatim>\<open>{...}\<close>.\<close>

datatype jsx =
    JUndefined
  | JNullV
  | JBool bool
  | JNum js_number
  | JStr string
  | JArr "string list"
  | JElem elem

fun truthy :: "jsx \<Rightarrow> bool" where
  "truthy JUndefined = False"
| "truthy JNullV = False"
| "truthy (JBool b) = b"
| "truthy (JNum NaN) = False"
| "truthy (JNum (Fin x)) = (x \<noteq> 0)"
| "truthy (JNum PosInf) = True"
| "truthy (JNum NegInf) = True"
| "truthy (JStr s) = (s \<noteq> [])"
| "truthy (JArr xs) = True"
| "truthy (JElem e) = True"

text \<open>\<^verbatim>\<open>a && b\<close> is \<open>a\<close> itself when \<open>a\<close> is falsy.\<close>

definition js_and :: "jsx \<Rightarrow> jsx \<Rightarrow> jsx" where
  "js_and a b = (if truthy a then b else a)"

fun of_num :: "real json \<Rightarrow> jsx" where
  "of_num Missing = JUndefined"
| "of_num JNull = JNullV"
| "of_num (Given x) = JNum (Fin x)"

fun of_str :: "string json \<Rightarrow> jsx" where
  "of_str Missing = JUndefined"
| "of_str JNull = JNullV"
| "of_str (Given s) = JStr s"

fun of_arr :: "string list json \<Rightarrow> jsx" where
  "of_arr Missing = JUndefined"
| "of_arr JNull = JNullV"
| "of_arr (Given xs) = JArr xs"

fun str_text :: "string json \<Rightarrow> string" where
  "str_text (Given s) = s"
| "str_text _ = []"

fun arr_items :: "string list json \<Rightarrow> string list" where
  "arr_items (Given xs) = xs"
| "arr_items _ = []"

text \<open>
  What React puts on the page for a child: nothing for \<^verbatim>\<open>undefined\<close>, \<^verbatim>\<open>null\<close>,
  a boolean and the empty string; the text of a number (of \<open>0\<close> and \<^verbatim>\<open>NaN\<close> too); the text
  of a string; the items of an array; an element.
\<close>

datatype shown = ShownNumber js_number | ShownText string | ShownElem elem

fun react_child :: "jsx \<Rightarrow> shown list" where
  "react_child JUndefined = []"
| "react_child JNullV = []"
| "react_child (JBool b) = []"
| "react_child (JNum n) = [ShownNumber n]"
| "react_child (JStr s) = (if s = [] then [] else [ShownText s])"
| "react_child (JArr xs) = map ShownText (filter (\<lambda>s. s \<noteq> []) xs)"
| "react_child (JElem e) = [ShownElem e]"

section \<open>Dashboard.tsx: the signal bars\<close>

text \<open>
  \<^verbatim>\<open>SignalStrength({ value })\<close>: \<^verbatim>\<open>bars = Math.round(value * 5)\<close>, then five bars, bar
  \<open>i\<close> of height class \<^verbatim>\<open>h-${(i + 1) * 2}\<close> and green when \<^verbatim>\<open>i < bars\<close>. A
  \<^typ>\<open>bar\<close> holds the height number and the colour class.
\<close>

definition SignalStrength :: "js_number \<Rightarrow> bar list" where
  "SignalStrength v =
     (let bars = Math_round (js_mult v (Fin 5))
      in map (\<lambda>i. Bar ((i + 1) * 2)
                    (if js_lt (Fin (real i)) bars then ''bg-green-500'' else ''bg-gray-300''))
           [0..<5])"

fun bar_colour :: "bar \<Rightarrow> string" where
  "bar_colour (Bar h c) = c"

fun is_green :: "bar \<Rightarrow> bool" where
  "is_green (Bar h c) = (c = ''bg-green-500'')"

fun is_gray :: "bar \<Rightarrow> bool" where
  "is_gray (Bar h c) = (c = ''bg-gray-300'')"

definition greens :: "bar list \<Rightarrow> nat" where
  "greens bs = length (filter is_green bs)"

section \<open>services/api.ts: the records the pages read\<close>

record article =
  is_featured :: bool
  is_emerging :: bool
  primary_theme :: "string json"
  summary :: "string json"
  key_takeaways :: "string list json"
  author :: "string json"
  region :: "string json"
  view_count :: real
  sentiment_score :: "real json"
  sentiment_label :: "string json"
  confidence_score :: "real json"
  signal_strength :: "real json"
  themes :: "string list"
  sectors :: "string list"

record trend =
  trend_name :: string
  article_count :: real
  momentum :: "real json"
  status :: "string json"
  trend_region :: "string json"

record sentiment_entry =
  sentiment :: "string json"
  entry_count :: real

section \<open>The three sentiment renderings\<close>

text \<open>Dashboard.tsx, the \<^verbatim>\<open>fill\<close> of a pie-chart cell.\<close>

definition sentimentFill :: "string json \<Rightarrow> string" where
  "sentimentFill l =
     (if l = Given ''positive'' then ''#10B981''
      else if l = Given ''negative'' then ''#EF4444''
      else ''#6B7280'')"

text \<open>\<^verbatim>\<open>(stats?.sentiment_distribution || []).map(...)\<close>: one cell per entry.\<close>

fun Dashboard_sentiment_cells :: "sentiment_entry list json \<Rightarrow> string list" where
  "Dashboard_sentiment_cells (Given es) = map (\<lambda>e. sentimentFill (sentiment e)) es"
| "Dashboard_sentiment_cells _ = []"

text \<open>ArticlesPage.tsx, the class chosen for the badge of a card.\<close>

definition cardSentimentClass :: "string json \<Rightarrow> string" where
  "cardSentimentClass l =
     (if l = Given ''positive'' then ''bg-green-100 text-green-800''
      else if l = Given ''negative'' then ''bg-red-100 text-red-800''
      else ''bg-gray-100 text-gray-800'')"

text \<open>ArticleDetail.tsx, the class chosen for the sentiment metric.\<close>

definition detailSentimentClass :: "string json \<Rightarrow> string" where
  "detailSentimentClass l =
     (if l = Given ''positive'' then ''text-green-600''
      else if l = Given ''negative'' then ''text-red-600''
      else ''text-gray-600'')"

definition card_sentiment :: "article \<Rightarrow> shown list" where
  "card_sentiment a =
     react_child (js_and (of_str (sentiment_label a))
       (JElem (SentimentBadge (cardSentimentClass (sentiment_label a))
                 (str_text (sentiment_label a)))))"

definition detail_sentiment :: "article \<Rightarrow> shown list" where
  "detail_sentiment a =
     react_child (js_and (of_str (sentiment_label a))
       (JElem (SentimentBadge (detailSentimentClass (sentiment_label a))
                 (str_text (sentiment_label a)))))"

text \<open>
  The colour family of a style, read off the literals the three renderings use
  (\<^verbatim>\<open>#10B981\<close>, \<^verbatim>\<open>#EF4444\<close> and \<^verbatim>\<open>#6B7280\<close> are the palette's green, red and gray).
\<close>

datatype tone = Green | Red | Gray

definition style_tone :: "string \<Rightarrow> tone option" where
  "style_tone c =
     (if c \<in> {''#10B981'', ''bg-green-100 text-green-800'', ''text-green-600''} then Some Green
      else if c \<in> {''#EF4444'', ''bg-red-100 text-red-800'', ''text-red-600''} then Some Red
      else if c \<in> {''#6B7280'', ''bg-gray-100 text-gray-800'', ''text-gray-600''} then Some Gray
      else None)"

text \<open>The mapping as the specification words it.\<close>

definition sentiment_tone :: "string \<Rightarrow> tone" where
  "sentiment_tone s =
     (if s = ''positive'' then Green else if s = ''negative'' then Red else Gray)"

section \<open>ArticlesPage.tsx: the article card\<close>

text \<open>
  \<^verbatim>\<open>{article.signal_strength !== null && (...)}\<close>: the strict comparison is false for
  \<^verbatim>\<open>null\<close> only, and the metric prints
  \<^verbatim>\<open>(article.signal_strength * 100).toFixed(0)\<close>.
\<close>

definition card_signal :: "article \<Rightarrow> shown list" where
  "card_signal a =
     react_child (js_and (JBool (signal_strength a \<noteq> JNull))
       (JElem (SignalMetric (toFixed0 (js_mult (to_number (signal_strength a)) (Fin 100))))))"

definition ArticleCard :: "article \<Rightarrow> shown list" where
  "ArticleCard a =
     react_child (js_and (JBool (is_featured a)) (JElem FeaturedBadge))
     @ react_child (js_and (JBool (is_emerging a)) (JElem EmergingBadge))
     @ react_child (js_and (of_str (primary_theme a))
         (JElem (ThemeBadge (str_text (primary_theme a)))))
     @ react_child (js_and (of_str (summary a)) (JElem (SummaryBlock (str_text (summary a)))))
     @ react_child (js_and (js_and (of_arr (key_takeaways a))
           (JBool (0 < length (arr_items (key_takeaways a)))))
         (JElem (TakeawaysBlock (take 2 (arr_items (key_takeaways a))))))
     @ react_child (js_and (of_str (region a)) (JElem (RegionSpan (str_text (region a)))))
     @ card_sentiment a
     @ card_signal a"

section \<open>ArticleDetail.tsx: the detail view\<close>

definition detail_signal :: "article \<Rightarrow> shown list" where
  "detail_signal a =
     react_child (js_and (JBool (signal_strength a \<noteq> JNull))
       (JElem (SignalMetric (toFixed0 (js_mult (to_number (signal_strength a)) (Fin 100))))))"

definition detail_confidence :: "article \<Rightarrow> shown list" where
  "detail_confidence a =
     react_child (js_and (JBool (confidence_score a \<noteq> JNull))
       (JElem (ConfidenceMetric (toFixed0 (js_mult (to_number (confidence_score a)) (Fin 100))))))"

definition detail_children :: "article \<Rightarrow> shown list" where
  "detail_children a =
     react_child (js_and (JBool (is_featured a)) (JElem FeaturedBadge))
     @ react_child (js_and (JBool (is_emerging a)) (JElem EmergingBadge))
     @ react_child (js_and (of_str (primary_theme a))
         (JElem (ThemeBadge (str_text (primary_theme a)))))
     @ react_child (js_and (of_str (author a)) (JElem (AuthorSpan (str_text (author a)))))
     @ react_child (js_and (of_str (region a)) (JElem (RegionSpan (str_text (region a)))))
     @ react_child (js_and (JBool (0 < view_count a)) (JElem (ViewsSpan (view_count a))))
     @ react_child (js_and (of_str (summary a)) (JElem (SummaryBlock (str_text (summary a)))))
     @ react_child (js_and (js_and (of_arr (key_takeaways a))
           (JBool (0 < length (arr_items (key_takeaways a)))))
         (JElem (TakeawaysBlock (arr_items (key_takeaways a)))))
     @ detail_signal a
     @ detail_sentiment a
     @ detail_confidence a
     @ react_child (js_and (js_and (JArr (themes a)) (JBool (0 < length (themes a))))
         (JElem (ThemesBlock (themes a))))
     @ react_child (js_and (js_and (JArr (sectors a)) (JBool (0 < length (sectors a))))
         (JElem (SectorsBlock (sectors a))))"

fun is_signal_metric :: "shown \<Rightarrow> bool" where
  "is_signal_metric (ShownElem (SignalMetric f)) = True"
| "is_signal_metric _ = False"

fun is_confidence_metric :: "shown \<Rightarrow> bool" where
  "is_confidence_metric (ShownElem (ConfidenceMetric f)) = True"
| "is_confidence_metric _ = False"

section \<open>TrendsPage.tsx and Dashboard.tsx: the momentum of a trend\<close>

text \<open>
  Both pages write \<^verbatim>\<open>{trend.momentum && (<span className="flex items-center text-green-600">
  <ArrowTrendingUpIcon .../> {(trend.momentum * 100).toFixed(0)}% momentum</span>)}\<close>.
\<close>

definition momentum_slot :: "real json \<Rightarrow> shown list" where
  "momentum_slot m =
     react_child (js_and (of_num m)
       (JElem (MomentumIndicator ''flex items-center text-green-600'' ''ArrowTrendingUpIcon''
                 (toFixed0 (js_mult (to_number m) (Fin 100))))))"

definition TrendsPage_momentum :: "trend \<Rightarrow> shown list" where
  "TrendsPage_momentum t = momentum_slot (momentum t)"

definition Dashboard_momentum :: "trend \<Rightarrow> shown list" where
  "Dashboard_momentum t = momentum_slot (momentum t)"

text \<open>The featured list of the dashboard: \<^verbatim>\<open>{article.signal_strength && (<SignalStrength .../>)}\<close>.\<close>

definition Dashboard_signal :: "article \<Rightarrow> shown list" where
  "Dashboard_signal a =
     react_child (js_and (of_num (signal_strength a))
       (JElem (SignalBars (SignalStrength (to_number (signal_strength a))))))"

section \<open>ArticlesPage.tsx: the filter state\<close>

text \<open>
  \<^verbatim>\<open>ArticleFilters\<close> is an object with eleven optional properties; the state is modelled
  as the value of each key, \<^verbatim>\<open>undefined\<close> for a key that is not set. The second argument
  of \<^verbatim>\<open>handleFilterChange\<close> has type \<^verbatim>\<open>any\<close>: the values are those the interface's
  properties take (numbers, strings, booleans, \<^verbatim>\<open>undefined\<close>).
\<close>

datatype filter_key =
    K_skip | K_limit | K_theme | K_sector | K_region | K_start_date | K_end_date
  | K_search | K_is_featured | K_is_emerging | K_min_signal_strength

datatype filter_value = FUndefined | FNum js_number | FStr string | FBool bool

type_synonym ArticleFilters = "filter_key \<Rightarrow> filter_value"

text \<open>\<^verbatim>\<open>useState<ArticleFilters>({ skip: 0, limit: 20 })\<close>\<close>

definition initial_filters :: ArticleFilters where
  "initial_filters = (\<lambda>k. FUndefined)(K_skip := FNum (Fin 0), K_limit := FNum (Fin 20))"

text \<open>\<^verbatim>\<open>setFilters((prev) => ({ ...prev, [key]: value, skip: 0 }))\<close>\<close>

definition handleFilterChange :: "filter_key \<Rightarrow> filter_value \<Rightarrow> ArticleFilters \<Rightarrow> ArticleFilters" where
  "handleFilterChange key v prev = (prev(key := v))(K_skip := FNum (Fin 0))"

fun fv_truthy :: "filter_value \<Rightarrow> bool" where
  "fv_truthy FUndefined = False"
| "fv_truthy (FNum NaN) = False"
| "fv_truthy (FNum (Fin x)) = (x \<noteq> 0)"
| "fv_truthy (FNum PosInf) = True"
| "fv_truthy (FNum NegInf) = True"
| "fv_truthy (FStr s) = (s \<noteq> [])"
| "fv_truthy (FBool b) = b"

text \<open>\<^verbatim>\<open>a || b\<close>\<close>

definition fv_or :: "filter_value \<Rightarrow> filter_value \<Rightarrow> filter_value" where
  "fv_or a b = (if fv_truthy a then a else b)"

text \<open>
  \<^verbatim>\<open>a + 20\<close>: a number is added to, a boolean counts as 0 or 1, \<^verbatim>\<open>undefined\<close> gives NaN,
  and a string is extended by the text \<^verbatim>\<open>20\<close>. The sum of two finite numbers is the
  exact one: on the multiples of 20 below \<open>2\<^sup>5\<^sup>3\<close>, where paging moves, the double
  addition is exact.
\<close>

fun fv_plus_20 :: "filter_value \<Rightarrow> filter_value" where
  "fv_plus_20 (FNum (Fin x)) = FNum (Fin (x + 20))"
| "fv_plus_20 (FNum NaN) = FNum NaN"
| "fv_plus_20 (FNum PosInf) = FNum PosInf"
| "fv_plus_20 (FNum NegInf) = FNum NegInf"
| "fv_plus_20 (FBool b) = FNum (Fin ((if b then 1 else 0) + 20))"
| "fv_plus_20 FUndefined = FNum NaN"
| "fv_plus_20 (FStr s) = FStr (s @ ''20'')"

text \<open>\<^verbatim>\<open>setFilters((prev) => ({ ...prev, skip: (prev.skip || 0) + 20 }))\<close>\<close>

definition handleLoadMore :: "ArticleFilters \<Rightarrow> ArticleFilters" where
  "handleLoadMore prev = prev(K_skip := fv_plus_20 (fv_or (prev K_skip) (FNum (Fin 0))))"

datatype filter_op = FilterChange filter_key filter_value | LoadMore

fun apply_op :: "ArticleFilters \<Rightarrow> filter_op \<Rightarrow> ArticleFilters" where
  "apply_op f (FilterChange key v) = handleFilterChange key v f"
| "apply_op f LoadMore = handleLoadMore f"

definition run_ops :: "filter_op list \<Rightarrow> ArticleFilters" where
  "run_ops ops = foldl apply_op initial_filters ops"

fun sets_limit :: "filter_op \<Rightarrow> bool" where
  "sets_limit (FilterChange key v) = (key = K_limit)"
| "sets_limit LoadMore = False"

text \<open>
  The page calls the two handlers from five places: the four \<^verbatim>\<open>select\<close> boxes, each
  with the chosen text \<^verbatim>\<open>e.target.value\<close>, and the Load More button.
  \<^verbatim>\<open>parseFloat\<close> is the browser's; the model takes it as the parameter \<open>pf\<close>.
\<close>

datatype page_event =
    ThemeSelect string
  | RegionSelect string
  | FeaturedSelect string
  | SignalSelect string
  | LoadMoreClick

fun event_op :: "(string \<Rightarrow> js_number) \<Rightarrow> page_event \<Rightarrow> filter_op" where
  "event_op pf (ThemeSelect s) = FilterChange K_theme (fv_or (FStr s) FUndefined)"
| "event_op pf (RegionSelect s) = FilterChange K_region (fv_or (FStr s) FUndefined)"
| "event_op pf (FeaturedSelect s) =
     FilterChange K_is_featured (if s = [] then FUndefined else FBool (s = ''true''))"
| "event_op pf (SignalSelect s) =
     FilterChange K_min_signal_strength (if fv_truthy (FStr s) then FNum (pf s) else FUndefined)"
| "event_op pf LoadMoreClick = LoadMore"

definition run_events :: "(string \<Rightarrow> js_number) \<Rightarrow> page_event list \<Rightarrow> ArticleFilters" where
  "run_events pf evs = run_ops (map (event_op pf) evs)"

section \<open>services/api.ts: the client\<close>

datatype http_method = GET | POST | PUT | PATCH | DELETE

text \<open>A template literal such as \<^verbatim>\<open>`/articles/${id}`\<close> is kept as its pieces.\<close>

datatype url_part = Lit string | Sub js_number

record request =
  req_method :: http_method
  req_url :: "url_part list"
  req_params :: "(string \<times> filter_value) list"

text \<open>\<^verbatim>\<open>api.get(url, { params })\<close>\<close>

definition api_get :: "url_part list \<Rightarrow> (string \<times> filter_value) list \<Rightarrow> request" where
  "api_get url ps = \<lparr> req_method = GET, req_url = url, req_params = ps \<rparr>"

text \<open>A default parameter (\<^verbatim>\<open>limit = 10\<close>) applies when the argument is \<^verbatim>\<open>undefined\<close>.\<close>

fun default_arg :: "'a \<Rightarrow> 'a option \<Rightarrow> 'a" where
  "default_arg d None = d"
| "default_arg d (Some x) = x"

fun opt_num :: "js_number option \<Rightarrow> filter_value" where
  "opt_num None = FUndefined"
| "opt_num (Some n) = FNum n"

fun opt_str :: "string option \<Rightarrow> filter_value" where
  "opt_str None = FUndefined"
| "opt_str (Some s) = FStr s"

definition filter_keys :: "(string \<times> filter_key) list" where
  "filter_keys =
     [(''skip'', K_skip), (''limit'', K_limit), (''theme'', K_theme), (''sector'', K_sector),
      (''region'', K_region), (''start_date'', K_start_date), (''end_date'', K_end_date),
      (''search'', K_search), (''is_featured'', K_is_featured),
      (''is_emerging'', K_is_emerging), (''min_signal_strength'', K_min_signal_strength)]"

fun filter_params :: "ArticleFilters option \<Rightarrow> (string \<times> filter_value) list" where
  "filter_params None = []"
| "filter_params (Some f) = map (\<lambda>(n, k). (n, f k)) filter_keys"

definition articlesApi_getAll :: "ArticleFilters option \<Rightarrow> request" where
  "articlesApi_getAll filters = api_get [Lit ''/articles''] (filter_params filters)"

definition articlesApi_getById :: "js_number \<Rightarrow> request" where
  "articlesApi_getById i = api_get [Lit ''/articles/'', Sub i] []"

definition articlesApi_getFeatured :: "js_number option \<Rightarrow> request" where
  "articlesApi_getFeatured lmt =
     api_get [Lit ''/articles/featured''] [(''limit'', FNum (default_arg (Fin 10) lmt))]"

definition articlesApi_search :: "string \<Rightarrow> js_number option \<Rightarrow> request" where
  "articlesApi_search query lmt =
     api_get [Lit ''/search''] [(''q'', FStr query), (''limit'', FNum (default_arg (Fin 20) lmt))]"

definition themesApi_getAll :: request where
  "themesApi_getAll = api_get [Lit ''/themes''] []"

definition themesApi_getArticles :: "js_number \<Rightarrow> js_number option \<Rightarrow> request" where
  "themesApi_getArticles themeId lmt =
     api_get [Lit ''/themes/'', Sub themeId, Lit ''/articles'']
       [(''limit'', FNum (default_arg (Fin 20) lmt))]"

definition insightsApi_getAll ::
  "js_number option \<Rightarrow> js_number option \<Rightarrow> string option \<Rightarrow> request" where
  "insightsApi_getAll skp lmt impactLevel =
     api_get [Lit ''/insights'']
       [(''skip'', FNum (default_arg (Fin 0) skp)), (''limit'', FNum (default_arg (Fin 20) lmt)),
        (''impact_level'', opt_str impactLevel)]"

definition trendsApi_getAll :: "string option \<Rightarrow> js_number option \<Rightarrow> request" where
  "trendsApi_getAll st themeId =
     api_get [Lit ''/trends''] [(''status'', opt_str st), (''theme_id'', opt_num themeId)]"

definition trendsApi_getEmerging :: "js_number option \<Rightarrow> request" where
  "trendsApi_getEmerging lmt =
     api_get [Lit ''/trends/emerging''] [(''limit'', FNum (default_arg (Fin 10) lmt))]"

definition digestsApi_getAll :: "string option \<Rightarrow> js_number option \<Rightarrow> request" where
  "digestsApi_getAll digestType lmt =
     api_get [Lit ''/digests'']
       [(''digest_type'', opt_str digestType), (''limit'', FNum (default_arg (Fin 10) lmt))]"

definition digestsApi_getLatest :: "string option \<Rightarrow> request" where
  "digestsApi_getLatest digestType =
     api_get [Lit ''/digests/latest''] [(''digest_type'', FStr (default_arg ''daily'' digestType))]"

definition statsApi_get :: request where
  "statsApi_get = api_get [Lit ''/stats''] []"

text \<open>Every operation the client exports, with its arguments.\<close>

datatype client_call =
    ArticlesGetAll "ArticleFilters option"
  | ArticlesGetById js_number
  | ArticlesGetFeatured "js_number option"
  | ArticlesSearch string "js_number option"
  | ThemesGetAll
  | ThemesGetArticles js_number "js_number option"
  | InsightsGetAll "js_number option" "js_number option" "string option"
  | TrendsGetAll "string option" "js_number option"
  | TrendsGetEmerging "js_number option"
  | DigestsGetAll "string option" "js_number option"
  | DigestsGetLatest "string option"
  | StatsGet

fun issue :: "client_call \<Rightarrow> request" where
  "issue (ArticlesGetAll f) = articlesApi_getAll f"
| "issue (ArticlesGetById i) = articlesApi_getById i"
| "issue (ArticlesGetFeatured l) = articlesApi_getFeatured l"
| "issue (ArticlesSearch q l) = articlesApi_search q l"
| "issue ThemesGetAll = themesApi_getAll"
| "issue (ThemesGetArticles i l) = themesApi_getArticles i l"
| "issue (InsightsGetAll s l i) = insightsApi_getAll s l i"
| "issue (TrendsGetAll s i) = trendsApi_getAll s i"
| "issue (TrendsGetEmerging l) = trendsApi_getEmerging l"
| "issue (DigestsGetAll t l) = digestsApi_getAll t l"
| "issue (DigestsGetLatest t) = digestsApi_getLatest t"
| "issue StatsGet = statsApi_get"


text \<open>
  The server is not part of the dashboard. \<open>serve\<close> stands for it: how it changes its
  persisted state on a request. The state after a series of client calls:
\<close>

definition after_calls :: "(request \<Rightarrow> 's \<Rightarrow> 's) \<Rightarrow> 's \<Rightarrow> client_call list \<Rightarrow> 's" where
  "after_calls serve s cs = foldl (\<lambda>st c. serve (issue c) st) s cs"

section \<open>ArticleDetail.tsx: the page\<close>

text \<open>
  \<^verbatim>\<open>parseInt(s)\<close> without a radix: leading white space is dropped, then an optional sign,
  then an optional \<^verbatim>\<open>0x\<close> that switches to base 16; the longest run of digits is read and
  the rest ignored; no digit at all gives NaN; the integer read is rounded to a double.

  A \<^typ>\<open>string\<close> holds the text in UTF-8. \<open>StrWhiteSpaceChar\<close> lists the encodings of
  the characters ECMAScript trims: TAB, LF, VT, FF, CR, SP, U+00A0, U+1680, U+2000 to
  U+200A, U+2028, U+2029, U+202F, U+205F, U+3000 and U+FEFF.
\<close>

definition StrWhiteSpaceChar :: "string list" where
  "StrWhiteSpaceChar =
     [[CHR 0x09], [CHR 0x0A], [CHR 0x0B], [CHR 0x0C], [CHR 0x0D], [CHR 0x20],
      [CHR 0xC2, CHR 0xA0],
      [CHR 0xE1, CHR 0x9A, CHR 0x80],
      [CHR 0xE2, CHR 0x80, CHR 0x80], [CHR 0xE2, CHR 0x80, CHR 0x81],
      [CHR 0xE2, CHR 0x80, CHR 0x82], [CHR 0xE2, CHR 0x80, CHR 0x83],
      [CHR 0xE2, CHR 0x80, CHR 0x84], [CHR 0xE2, CHR 0x80, CHR 0x85],
      [CHR 0xE2, CHR 0x80, CHR 0x86], [CHR 0xE2, CHR 0x80, CHR 0x87],
      [CHR 0xE2, CHR 0x80, CHR 0x88], [CHR 0xE2, CHR 0x80, CHR 0x89],
      [CHR 0xE2, CHR 0x80, CHR 0x8A],
      [CHR 0xE2, CHR 0x80, CHR 0xA8], [CHR 0xE2, CHR 0x80, CHR 0xA9],
      [CHR 0xE2, CHR 0x80, CHR 0xAF],
      [CHR 0xE2, CHR 0x81, CHR 0x9F],
      [CHR 0xE3, CHR 0x80, CHR 0x80],
      [CHR 0xEF, CHR 0xBB, CHR 0xBF]]"

text \<open>The number of bytes of the white-space character a text starts with, 0 for none.\<close>

definition ws_prefix :: "string \<Rightarrow> nat" where
  "ws_prefix s =
     (case find (\<lambda>w. take (length w) s = w) StrWhiteSpaceChar of
        None \<Rightarrow> 0
      | Some w \<Rightarrow> length w)"

text \<open>
  Dropping leading white space, at most \<open>n\<close> characters of it; the length of the text is
  enough for all of it.
\<close>

fun drop_ws :: "nat \<Rightarrow> string \<Rightarrow> string" where
  "drop_ws 0 s = s"
| "drop_ws (Suc n) s = (if ws_prefix s = 0 then s else drop_ws n (drop (ws_prefix s) s))"

definition trimStart :: "string \<Rightarrow> string" where
  "trimStart s = drop_ws (length s) s"

definition digit_value :: "char \<Rightarrow> nat option" where
  "digit_value c =
     (if c \<in> set ''0123456789'' then Some (of_char c - 48)
      else if c \<in> set ''abcdef'' then Some (of_char c - 87)
      else if c \<in> set ''ABCDEF'' then Some (of_char c - 55)
      else None)"

definition radix_digit :: "nat \<Rightarrow> char \<Rightarrow> nat option" where
  "radix_digit r c =
     (case digit_value c of None \<Rightarrow> None | Some d \<Rightarrow> if d < r then Some d else None)"

definition parseInt :: "string \<Rightarrow> js_number" where
  "parseInt s =
     (let t = trimStart s;
          neg = (t \<noteq> [] \<and> hd t = CHR ''-'');
          t1 = (if t \<noteq> [] \<and> (hd t = CHR ''+'' \<or> hd t = CHR ''-'') then tl t else t);
          hex = (take 2 t1 = ''0x'' \<or> take 2 t1 = ''0X'');
          r = (if hex then 16 else 10);
          t2 = (if hex then drop 2 t1 else t1);
          z = takeWhile (\<lambda>c. radix_digit r c \<noteq> None) t2;
          n = foldl (\<lambda>acc c. acc * r + the (radix_digit r c)) 0 z
      in if z = [] then NaN else fl (if neg then - real n else real n))"

text \<open>\<^verbatim>\<open>const articleId = parseInt(id || '0')\<close>, \<open>id\<close> being the route parameter.\<close>

definition articleId :: "string option \<Rightarrow> js_number" where
  "articleId i = parseInt (case i of None \<Rightarrow> ''0'' | Some s \<Rightarrow> if s = [] then ''0'' else s)"

text \<open>\<^verbatim>\<open>{ enabled: !!articleId }\<close>\<close>

definition query_enabled :: "string option \<Rightarrow> bool" where
  "query_enabled i = truthy (JNum (articleId i))"

text \<open>
  \<^verbatim>\<open>useQuery\<close> of react-query: a query that is not enabled sends nothing, holds no data
  and is not loading; an enabled one sends its request and follows it. A \<open>fetch\<close> is
  the state of that request.
\<close>

datatype fetch = Pending | Resolved article | Rejected

record query_result =
  q_data :: "article option"
  q_isLoading :: bool

fun useQuery :: "bool \<Rightarrow> fetch \<Rightarrow> query_result" where
  "useQuery False f = \<lparr> q_data = None, q_isLoading = False \<rparr>"
| "useQuery True Pending = \<lparr> q_data = None, q_isLoading = True \<rparr>"
| "useQuery True (Resolved a) = \<lparr> q_data = Some a, q_isLoading = False \<rparr>"
| "useQuery True Rejected = \<lparr> q_data = None, q_isLoading = False \<rparr>"

text \<open>The requests the page sends: \<^verbatim>\<open>articlesApi.getById(articleId)\<close> when enabled.\<close>

definition ArticleDetail_requests :: "string option \<Rightarrow> request list" where
  "ArticleDetail_requests i =
     (if query_enabled i then [articlesApi_getById (articleId i)] else [])"

datatype page = Spinner | NotFound | ArticleView "shown list"

definition ArticleDetail :: "string option \<Rightarrow> fetch \<Rightarrow> page" where
  "ArticleDetail i f =
     (let q = useQuery (query_enabled i) f
      in if q_isLoading q then Spinner
         else case q_data q of None \<Rightarrow> NotFound | Some a \<Rightarrow> ArticleView (detail_children a))"

section \<open>Concrete records\<close>

text \<open>
  An article as the \<^verbatim>\<open>Article\<close> interface allows it before any analysis: every optional
  property left out.
\<close>

definition bare_article :: article where
  "bare_article =
     \<lparr> is_featured = False, is_emerging = False, primary_theme = Missing, summary = Missing,
       key_takeaways = Missing, author = Missing, region = Missing, view_count = 0,
       sentiment_score = Missing, sentiment_label = Missing, confidence_score = Missing,
       signal_strength = Missing, themes = [], sectors = [] \<rparr>"

text \<open>A trend whose momentum is the number 0.\<close>

definition flat_trend :: trend where
  "flat_trend =
     \<lparr> trend_name = ''Skills'', article_count = 12, momentum = Given 0,
       status = Given ''emerging'', trend_region = Given ''Global'' \<rparr>"

section \<open>The pipeline behind the dashboard\<close>

text \<open>
  The dashboard reads what the content pipeline has stored. The pipeline is the Python
  backend of the repository (\<^verbatim>\<open>backend/services\<close>, \<^verbatim>\<open>backend/scrapers\<close>), which is not
  among the source files at hand; the definitions of this section follow the words of
  the specification instead, and each says which part it stands for.
\<close>

subsection \<open>Documents and articles\<close>

text \<open>Modelled from the spec: the IngestedDocument of section 3 (the Fetcher's output).\<close>

record ingested_document =
  doc_url :: string
  doc_title :: string
  doc_text :: string
  doc_published_at :: nat
  doc_source_id :: nat

text \<open>Modelled from the spec: the sentiment label enum of the Article entity (section 3).\<close>

datatype sentiment_enum = Positive | Neutral | Negative

text \<open>
  Modelled from the spec: the two ways an analysis ends without a result (section 4.3):
  retries exhausted on transient errors, or on malformed responses.
\<close>

datatype analysis_failure = TransientExhausted | ValidationExhausted

text \<open>
  Modelled from the spec: the Article entity of section 3, with the fields the Deduplicator
  and the Analyzer write. The url is the normalized one; the analysis fields are optional;
  \<open>pa_failed\<close> is the flag for a later re-attempt.
\<close>

record pipeline_article =
  pa_id :: nat
  pa_url :: string
  pa_source_id :: nat
  pa_title :: string
  pa_text :: string
  pa_published_at :: nat
  pa_summary :: "string option"
  pa_key_takeaways :: "string list"
  pa_confidence_score :: "real option"
  pa_sentiment_score :: "real option"
  pa_sentiment_label :: "sentiment_enum option"
  pa_signal_strength :: "real option"
  pa_failed :: "analysis_failure option"

subsection \<open>Analyzer\<close>

text \<open>
  Modelled from the spec: the AnalysisResult of section 4.3 (the Analyzer is not among the
  sources).
\<close>

record analysis =
  an_summary :: string
  an_key_takeaways :: "string list"
  an_theme_guess :: string
  an_sentiment_label :: sentiment_enum
  an_sentiment_score :: real
  an_signal_strength :: real
  an_confidence_score :: real

text \<open>
  Modelled from the spec: the structured response of the external analysis capability
  (section 6), where any required field may be missing.
\<close>

record raw_response =
  raw_summary :: "string option"
  raw_key_takeaways :: "string list option"
  raw_theme_guess :: "string option"
  raw_sentiment_label :: "string option"
  raw_sentiment_score :: "real option"
  raw_signal_strength :: "real option"
  raw_confidence_score :: "real option"

text \<open>
  Modelled from the spec: one call of the external capability (section 4.3): a transient
  failure (timeout, rate-limit signal) or a response.
\<close>

datatype attempt = Timeout | RateLimited | Responded raw_response

text \<open>
  Modelled from the spec: the configuration surface of section 6, as far as the
  Deduplicator and the Analyzer read it: the URL normalization, the similarity test with
  its threshold, the maximum attempt count and the bound on the summary.
\<close>

record pipeline_config =
  normalize_url :: "string \<Rightarrow> string"
  near_duplicate :: "ingested_document \<Rightarrow> pipeline_article \<Rightarrow> bool"
  max_attempts :: nat
  summary_bound :: nat

text \<open>Modelled from the spec: reading the sentiment label enum (Article, section 3).\<close>

definition parse_label :: "string \<Rightarrow> sentiment_enum option" where
  "parse_label s =
     (if s = ''positive'' then Some Positive
      else if s = ''neutral'' then Some Neutral
      else if s = ''negative'' then Some Negative
      else None)"

text \<open>
  Modelled from the spec: the validation of a response (sections 4.3 and 6): every
  required field present and of its type, that is a bounded summary, 3 to 5 takeaways, a
  label of the enum, scores in 0..1 and a sentiment score in -1..1.
\<close>

definition validate_response :: "pipeline_config \<Rightarrow> raw_response \<Rightarrow> analysis option" where
  "validate_response cfg r =
     (case (raw_summary r, raw_key_takeaways r, raw_theme_guess r, raw_sentiment_label r,
            raw_sentiment_score r, raw_signal_strength r, raw_confidence_score r) of
        (Some sm, Some kt, Some tg, Some lb, Some ss, Some sg, Some cf) \<Rightarrow>
          (case parse_label lb of
             None \<Rightarrow> None
           | Some l \<Rightarrow>
               if length sm \<le> summary_bound cfg \<and> 3 \<le> length kt \<and> length kt \<le> 5
                  \<and> - 1 \<le> ss \<and> ss \<le> 1 \<and> 0 \<le> sg \<and> sg \<le> 1 \<and> 0 \<le> cf \<and> cf \<le> 1
               then Some \<lparr> an_summary = sm, an_key_takeaways = kt, an_theme_guess = tg,
                           an_sentiment_label = l, an_sentiment_score = ss,
                           an_signal_strength = sg, an_confidence_score = cf \<rparr>
               else None)
      | _ \<Rightarrow> None)"

text \<open>Modelled from the spec: the result of \<^verbatim>\<open>analyze\<close> (section 4.3).\<close>

datatype analysis_outcome = AnalysisResult analysis | AnalysisFailure analysis_failure

text \<open>
  Modelled from the spec: the bounded retry of section 4.3. \<open>capability k\<close> is what the
  external call gives at attempt \<open>k\<close>; \<open>n\<close> attempts are left; \<open>bad\<close> tells whether the
  last failure was a malformed response. (The waiting between attempts is not modelled.)
\<close>

fun retry :: "pipeline_config \<Rightarrow> (nat \<Rightarrow> attempt) \<Rightarrow> nat \<Rightarrow> bool \<Rightarrow> nat \<Rightarrow> analysis_outcome" where
  "retry cfg capability k bad 0 =
     AnalysisFailure (if bad then ValidationExhausted else TransientExhausted)"
| "retry cfg capability k bad (Suc n) =
     (case capability k of
        Responded r \<Rightarrow>
          (case validate_response cfg r of
             Some a \<Rightarrow> AnalysisResult a
           | None \<Rightarrow> retry cfg capability (Suc k) True n)
      | _ \<Rightarrow> retry cfg capability (Suc k) False n)"

text \<open>Modelled from the spec: \<^verbatim>\<open>analyze(article_text, title)\<close> of section 4.3.\<close>

definition analyze :: "pipeline_config \<Rightarrow> (nat \<Rightarrow> attempt) \<Rightarrow> analysis_outcome" where
  "analyze cfg capability = retry cfg capability 0 False (max_attempts cfg)"

text \<open>
  Modelled from the spec: writing the outcome on the Article (sections 3 and 4.3): a result
  overwrites the analysis fields; a failure leaves them as they are and flags the Article.
\<close>

fun record_outcome :: "pipeline_article \<Rightarrow> analysis_outcome \<Rightarrow> pipeline_article" where
  "record_outcome a (AnalysisResult r) =
     a\<lparr> pa_summary := Some (an_summary r), pa_key_takeaways := an_key_takeaways r,
        pa_confidence_score := Some (an_confidence_score r),
        pa_sentiment_score := Some (an_sentiment_score r),
        pa_sentiment_label := Some (an_sentiment_label r),
        pa_signal_strength := Some (an_signal_strength r), pa_failed := None \<rparr>"
| "record_outcome a (AnalysisFailure f) = a\<lparr> pa_failed := Some f \<rparr>"

text \<open>
  Modelled from the spec: the Article as first persisted (section 3: analysis fields are
  null until the Analyzer has processed it).
\<close>

definition new_article :: "pipeline_config \<Rightarrow> nat \<Rightarrow> ingested_document \<Rightarrow> pipeline_article" where
  "new_article cfg i d =
     \<lparr> pa_id = i, pa_url = normalize_url cfg (doc_url d), pa_source_id = doc_source_id d,
       pa_title = doc_title d, pa_text = doc_text d, pa_published_at = doc_published_at d,
       pa_summary = None, pa_key_takeaways = [], pa_confidence_score = None,
       pa_sentiment_score = None, pa_sentiment_label = None, pa_signal_strength = None,
       pa_failed = None \<rparr>"

text \<open>
  Modelled from the spec: the Analyzer runs an Article goes through, the first one at
  ingestion and one per later re-attempt (section 4.3); \<open>caps\<close> lists what the external
  capability does in each run.
\<close>

definition analysed :: "pipeline_config \<Rightarrow> pipeline_article \<Rightarrow> (nat \<Rightarrow> attempt) list \<Rightarrow> pipeline_article" where
  "analysed cfg a caps = foldl (\<lambda>b capability. record_outcome b (analyze cfg capability)) a caps"

text \<open>Modelled from the spec: whether a run of the Analyzer succeeded (section 4.3).\<close>

fun succeeded :: "analysis_outcome \<Rightarrow> bool" where
  "succeeded (AnalysisResult r) = True"
| "succeeded (AnalysisFailure f) = False"

text \<open>Modelled from the spec: the ranges of the scores (section 8), for a present field.\<close>

definition in_range :: "real \<Rightarrow> real \<Rightarrow> real option \<Rightarrow> bool" where
  "in_range lo hi v = (case v of None \<Rightarrow> True | Some x \<Rightarrow> lo \<le> x \<and> x \<le> hi)"

text \<open>
  Modelled from the spec: the invariant of section 8 on the three scores of an Article.
\<close>

definition scores_in_range :: "pipeline_article \<Rightarrow> bool" where
  "scores_in_range a =
     (in_range 0 1 (pa_signal_strength a) \<and> in_range 0 1 (pa_confidence_score a)
      \<and> in_range (- 1) 1 (pa_sentiment_score a))"

subsection \<open>Deduplicator and ingestion\<close>

text \<open>
  Modelled from the spec: the inbound contract of section 6: a document with no url or an
  empty text is rejected before persistence.
\<close>

definition well_formed :: "ingested_document \<Rightarrow> bool" where
  "well_formed d = (doc_url d \<noteq> [] \<and> doc_text d \<noteq> [])"

text \<open>
  Modelled from the spec: \<^verbatim>\<open>resolveExistingId\<close> of section 4.2: the stored Article with
  the document's normalized URL or, failing that, a near-identical one.
\<close>

definition resolveExistingId :: "pipeline_config \<Rightarrow> pipeline_article list \<Rightarrow> ingested_document \<Rightarrow> nat option" where
  "resolveExistingId cfg store d =
     (case find (\<lambda>a. pa_url a = normalize_url cfg (doc_url d)) store of
        Some a \<Rightarrow> Some (pa_id a)
      | None \<Rightarrow> map_option pa_id (find (near_duplicate cfg d) store))"

text \<open>Modelled from the spec: \<^verbatim>\<open>isNew\<close> of section 4.2.\<close>

definition isNew :: "pipeline_config \<Rightarrow> pipeline_article list \<Rightarrow> ingested_document \<Rightarrow> bool" where
  "isNew cfg store d = (resolveExistingId cfg store d = None)"

text \<open>
  Modelled from the spec: the orchestrator's step for one document (sections 2 and 4.3):
  a rejected or known document changes nothing; a new one is persisted with the next id,
  with its analysis if the Analyzer succeeds and without it otherwise. \<open>env d\<close> is what the
  external capability does for document \<open>d\<close>.
\<close>

definition ingest_one ::
  "pipeline_config \<Rightarrow> (ingested_document \<Rightarrow> nat \<Rightarrow> attempt) \<Rightarrow> pipeline_article list
     \<Rightarrow> ingested_document \<Rightarrow> pipeline_article list" where
  "ingest_one cfg env store d =
     (if well_formed d \<and> isNew cfg store d
      then store @ [record_outcome (new_article cfg (Suc (length store)) d) (analyze cfg (env d))]
      else store)"

text \<open>Modelled from the spec: one run of the pipeline on a fetch output (section 2).\<close>

definition run_pipeline ::
  "pipeline_config \<Rightarrow> (ingested_document \<Rightarrow> nat \<Rightarrow> attempt) \<Rightarrow> pipeline_article list
     \<Rightarrow> ingested_document list \<Rightarrow> pipeline_article list" where
  "run_pipeline cfg env store docs = foldl (ingest_one cfg env) store docs"

text \<open>
  Modelled from the spec: a document the orchestrator does not persist on the given store:
  rejected by the inbound contract (section 6) or not new to the Deduplicator (section 4.2).
\<close>

definition known :: "pipeline_config \<Rightarrow> pipeline_article list \<Rightarrow> ingested_document \<Rightarrow> bool" where
  "known cfg store d = (\<not> (well_formed d \<and> isNew cfg store d))"

subsection \<open>Trend Engine\<close>

text \<open>Modelled from the spec: the status enum of the Trend entity (section 3).\<close>

datatype trend_status = Emerging | Growing | Peak | Declining

text \<open>
  Modelled from the spec: the thresholds of the Trend Engine (section 4.5, all of them
  configuration): the momentum that counts as sustained growth, and the band around zero.
\<close>

record trend_config =
  growth_threshold :: real
  zero_band :: real

text \<open>
  Modelled from the spec: the state machine of section 4.5. A Trend is created in
  \<open>Emerging\<close>; sustained positive momentum moves it to \<open>Growing\<close>; momentum down to near
  zero after growth moves it to \<open>Peak\<close>; negative momentum moves a peaked Trend to
  \<open>Declining\<close>; a declining Trend that regains velocity re-enters \<open>Growing\<close>.
\<close>

fun next_status :: "trend_config \<Rightarrow> trend_status \<Rightarrow> real \<Rightarrow> trend_status" where
  "next_status cfg Emerging m = (if growth_threshold cfg < m then Growing else Emerging)"
| "next_status cfg Growing m = (if m \<le> zero_band cfg then Peak else Growing)"
| "next_status cfg Peak m = (if m < - zero_band cfg then Declining else Peak)"
| "next_status cfg Declining m = (if growth_threshold cfg < m then Growing else Declining)"

text \<open>
  Modelled from the spec: the statuses a Trend takes on over the pipeline runs, given the
  momentum recomputed in each run (section 4.5), starting from status \<open>s\<close>.
\<close>

fun status_trace :: "trend_config \<Rightarrow> trend_status \<Rightarrow> real list \<Rightarrow> trend_status list" where
  "status_trace cfg s [] = [s]"
| "status_trace cfg s (m # ms) = s # status_trace cfg (next_status cfg s m) ms"

text \<open>Modelled from the spec: the edges section 8 allows.\<close>

definition allowed_edge :: "trend_status \<Rightarrow> trend_status \<Rightarrow> bool" where
  "allowed_edge a b =
     ((a = Emerging \<and> b = Growing) \<or> (a = Growing \<and> b = Peak)
      \<or> (a = Peak \<and> b = Declining) \<or> (a = Declining \<and> b = Growing))"

text \<open>
  Modelled from the spec: how often a Trend enters a status by a step from another one
  (the glossary's "entered at most once").
\<close>

fun entries :: "trend_status \<Rightarrow> trend_status list \<Rightarrow> nat" where
  "entries s (a # b # xs) = (if a \<noteq> s \<and> b = s then 1 else 0) + entries s (b # xs)"
| "entries s xs = 0"

text \<open>
  Modelled from the spec: how often a Trend enters a status in all, its creation in that
  status counting as an entry (section 4.5: a one-time first-detection state).
\<close>

definition times_entered :: "trend_status \<Rightarrow> trend_status list \<Rightarrow> nat" where
  "times_entered s tr = (if tr \<noteq> [] \<and> hd tr = s then 1 else 0) + entries s tr"

subsection \<open>Read layer\<close>


subsection \<open>Scenario data\<close>

text \<open>
  Modelled from the spec: a configuration for the scenarios of section 8. Its normalization
  drops the query string, as an example of stripping tracking parameters; it treats no
  two documents as near-identical; it allows three attempts.
\<close>

definition sample_config :: pipeline_config where
  "sample_config =
     \<lparr> normalize_url = takeWhile (\<lambda>c. c \<noteq> CHR ''?''), near_duplicate = (\<lambda>d a. False),
       max_attempts = 3, summary_bound = 500 \<rparr>"

text \<open>
  Modelled from the spec: the documents of the scenario with the URLs A, B and A', where A'
  is A with a tracking query string appended (section 8).
\<close>

definition sample_doc :: "string \<Rightarrow> ingested_document" where
  "sample_doc u =
     \<lparr> doc_url = u, doc_title = ''Title'', doc_text = ''Text'', doc_published_at = 1,
       doc_source_id = 1 \<rparr>"

text \<open>Modelled from the spec: the fetch output of that scenario, in the order A, B, A'.\<close>

definition sample_docs :: "ingested_document list" where
  "sample_docs = [sample_doc ''http://a.example/x'', sample_doc ''http://b.example/y'',
                  sample_doc ''http://a.example/x?utm_source=feed'']"

text \<open>
  Modelled from the spec: a response of the external capability that matches the
  AnalysisResult schema (sections 4.3 and 6).
\<close>

definition good_response :: raw_response where
  "good_response =
     \<lparr> raw_summary = Some ''Summary'', raw_key_takeaways = Some [''one'', ''two'', ''three''],
       raw_theme_guess = Some ''AI Governance'', raw_sentiment_label = Some ''positive'',
       raw_sentiment_score = Some (1 / 2), raw_signal_strength = Some (4 / 5),
       raw_confidence_score = Some (9 / 10) \<rparr>"

text \<open>Modelled from the spec: a capability whose every call times out (section 4.3).\<close>

definition always_down :: "nat \<Rightarrow> attempt" where
  "always_down k = Timeout"

text \<open>
  Modelled from the spec: a capability that fails twice with a transient error and
  answers well on the third attempt (the retry scenario of section 8).
\<close>

definition third_time :: "nat \<Rightarrow> attempt" where
  "third_time k = (if k < 2 then RateLimited else Responded good_response)"

section \<open>Properties of the rounding to a double\<close>

lemma rne_lower: "\<lfloor>y\<rfloor> \<le> rne y"
  by (simp add: rne_def Let_def)

lemma rne_upper: "rne y \<le> \<lfloor>y\<rfloor> + 1"
  by (simp add: rne_def Let_def)

lemma rne_of_int [simp]: "rne (of_int k) = k"
  by (simp add: rne_def Let_def)

lemma rne_mono: "x \<le> y \<Longrightarrow> rne x \<le> rne y"
proof -
  assume xy: "x \<le> y"
  then have f: "\<lfloor>x\<rfloor> \<le> \<lfloor>y\<rfloor>" by (rule floor_mono)
  show ?thesis
  proof (cases "\<lfloor>x\<rfloor> = \<lfloor>y\<rfloor>")
    case False
    with f have "\<lfloor>x\<rfloor> + 1 \<le> \<lfloor>y\<rfloor>" by simp
    with rne_upper[of x] rne_lower[of y] show ?thesis by linarith
  next
    case True
    with xy have "x - of_int \<lfloor>x\<rfloor> \<le> y - of_int \<lfloor>y\<rfloor>" by simp
    with True show ?thesis by (auto simp: rne_def Let_def)
  qed
qed

lemma rne_close: "\<bar>of_int (rne y) - y\<bar> \<le> 1 / 2"
proof -
  have "of_int \<lfloor>y\<rfloor> \<le> y" "y < of_int \<lfloor>y\<rfloor> + 1" by linarith+
  then show ?thesis by (auto simp: rne_def Let_def)
qed

lemma binade_bounds: "- 1022 \<le> binade a n \<and> binade a n \<le> int n - 1022"
  by (induction n) auto

lemma binade_le: "- 1022 < binade a n \<Longrightarrow> 2 powi (binade a n) \<le> a"
  by (induction n) (auto split: if_splits)

lemma binade_gt: "binade a n < int n - 1022 \<Longrightarrow> a < 2 powi (binade a n + 1)"
proof (induction n)
  case 0
  then show ?case by simp
next
  case (Suc n)
  show ?case
  proof (cases "2 powi (int n - 1021) \<le> a")
    case True
    with Suc.prems show ?thesis by simp
  next
    case False
    then have b: "binade a (Suc n) = binade a n" by simp
    show ?thesis
    proof (cases "binade a n < int n - 1022")
      case True
      then show ?thesis using Suc.IH b by simp
    next
      case False
      with binade_bounds[of a n] have "binade a n = int n - 1022" by linarith
      with \<open>\<not> 2 powi (int n - 1021) \<le> a\<close> b show ?thesis by simp
    qed
  qed
qed

lemma binade_mono: "a \<le> b \<Longrightarrow> binade a n \<le> binade b n"
proof (induction n)
  case 0
  then show ?case by simp
next
  case (Suc n)
  then show ?case using binade_bounds[of b n] by auto
qed

lemma exponent_bounds: "- 1022 \<le> exponent a" "exponent a \<le> 1023"
  using binade_bounds[of a 2045] by (simp_all add: exponent_def)

lemma exponent_le: "- 1022 < exponent a \<Longrightarrow> 2 powi (exponent a) \<le> a"
  unfolding exponent_def by (rule binade_le)

lemma exponent_gt: "exponent a < 1023 \<Longrightarrow> a < 2 powi (exponent a + 1)"
  unfolding exponent_def by (rule binade_gt) simp

lemma exponent_mono: "a \<le> b \<Longrightarrow> exponent a \<le> exponent b"
  unfolding exponent_def by (rule binade_mono)

lemma exponent_eq:
  assumes "2 powi e \<le> a" "a < 2 powi (e + 1)" "- 1022 \<le> e" "e \<le> 1023"
  shows "exponent a = e"
proof (rule antisym)
  show "exponent a \<le> e"
  proof (rule ccontr)
    assume "\<not> exponent a \<le> e"
    then have g: "e + 1 \<le> exponent a" by simp
    with assms(3) have "- 1022 < exponent a" by simp
    then have "2 powi (exponent a) \<le> a" by (rule exponent_le)
    moreover have "(2::real) powi (e + 1) \<le> 2 powi (exponent a)"
      using g by (intro power_int_increasing) simp_all
    ultimately show False using assms(2) by linarith
  qed
  show "e \<le> exponent a"
  proof (rule ccontr)
    assume "\<not> e \<le> exponent a"
    then have g: "exponent a + 1 \<le> e" by simp
    with assms(4) have "exponent a < 1023" by simp
    then have "a < 2 powi (exponent a + 1)" by (rule exponent_gt)
    moreover have "(2::real) powi (exponent a + 1) \<le> 2 powi e"
      using g by (intro power_int_increasing) simp_all
    ultimately show False using assms(1) by linarith
  qed
qed

lemma exponent_low: "a < 2 powi (- 1021) \<Longrightarrow> exponent a = - 1022"
proof (rule ccontr)
  assume a: "a < 2 powi (- 1021)" and "exponent a \<noteq> - 1022"
  with exponent_bounds(1)[of a] have g: "- 1021 \<le> exponent a" by linarith
  then have "2 powi (exponent a) \<le> a" by (intro exponent_le) simp
  moreover have "(2::real) powi (- 1021) \<le> 2 powi (exponent a)"
    using g by (intro power_int_increasing) simp_all
  ultimately show False using a by linarith
qed

lemma ulp_scale: "(2::real) powi (e - 52) * 2 ^ 52 = 2 powi e"
proof -
  have "(2::real) powi (e - 52) * 2 powi 52 = 2 powi (e - 52 + 52)"
    by (subst power_int_add) simp_all
  then show ?thesis by simp
qed

lemma ulp_scale': "(2::real) powi (e - 52) * 2 ^ 53 = 2 powi (e + 1)"
proof -
  have "(2::real) powi (e - 52) * 2 powi 53 = 2 powi (e - 52 + 53)"
    by (subst power_int_add) simp_all
  then show ?thesis by (simp add: add.commute)
qed

lemma fl_abs_upper:
  assumes "exponent a < 1023"
  shows "fl_abs a \<le> 2 powi (exponent a + 1)"
proof -
  define u :: real where "u = 2 powi (exponent a - 52)"
  have u: "0 < u" by (simp add: u_def)
  have "a < 2 powi (exponent a + 1)" using assms by (rule exponent_gt)
  also have "\<dots> = u * 2 ^ 53" unfolding u_def by (rule ulp_scale'[symmetric])
  finally have "a / u \<le> of_int (2 ^ 53)" using u by (simp add: field_simps)
  then have "rne (a / u) \<le> rne (of_int (2 ^ 53))" by (rule rne_mono)
  then have "rne (a / u) \<le> 2 ^ 53" by (simp only: rne_of_int)
  then have "real_of_int (rne (a / u)) \<le> real_of_int (2 ^ 53)" by (simp only: of_int_le_iff)
  then have "real_of_int (rne (a / u)) \<le> 2 ^ 53" by simp
  then have "u * real_of_int (rne (a / u)) \<le> u * 2 ^ 53"
    using u by (intro mult_left_mono) simp_all
  then have "fl_abs a \<le> u * 2 ^ 53" by (simp only: fl_abs_def Let_def u_def)
  also have "u * 2 ^ 53 = 2 powi (exponent a + 1)" unfolding u_def by (rule ulp_scale')
  finally show ?thesis .
qed

lemma fl_abs_lower:
  assumes "- 1022 < exponent a"
  shows "2 powi (exponent a) \<le> fl_abs a"
proof -
  define u :: real where "u = 2 powi (exponent a - 52)"
  have u: "0 < u" by (simp add: u_def)
  have "u * 2 ^ 52 = 2 powi (exponent a)" unfolding u_def by (rule ulp_scale)
  also have "\<dots> \<le> a" using assms by (rule exponent_le)
  finally have "of_int (2 ^ 52) \<le> a / u" using u by (simp add: field_simps)
  then have "rne (of_int (2 ^ 52)) \<le> rne (a / u)" by (rule rne_mono)
  then have "2 ^ 52 \<le> rne (a / u)" by (simp only: rne_of_int)
  then have "real_of_int (2 ^ 52) \<le> real_of_int (rne (a / u))" by (simp only: of_int_le_iff)
  then have "2 ^ 52 \<le> real_of_int (rne (a / u))" by simp
  then have "u * 2 ^ 52 \<le> u * real_of_int (rne (a / u))"
    using u by (intro mult_left_mono) simp_all
  then have "u * 2 ^ 52 \<le> fl_abs a" by (simp only: fl_abs_def Let_def u_def)
  moreover have "u * 2 ^ 52 = 2 powi (exponent a)" unfolding u_def by (rule ulp_scale)
  ultimately show ?thesis by simp
qed

lemma fl_abs_mono:
  assumes "a \<le> b"
  shows "fl_abs a \<le> fl_abs b"
proof (cases "exponent a = exponent b")
  case True
  define u :: real where "u = 2 powi (exponent b - 52)"
  have u: "0 < u" by (simp add: u_def)
  from assms u have "a / u \<le> b / u" by (simp add: divide_right_mono)
  then have "rne (a / u) \<le> rne (b / u)" by (rule rne_mono)
  then have "u * real_of_int (rne (a / u)) \<le> u * real_of_int (rne (b / u))"
    using u by (intro mult_left_mono) simp_all
  then show ?thesis by (simp add: fl_abs_def Let_def True u_def)
next
  case False
  with exponent_mono[OF assms] have lt: "exponent a + 1 \<le> exponent b" by simp
  with exponent_bounds(2)[of b] have "exponent a < 1023" by linarith
  then have "fl_abs a \<le> 2 powi (exponent a + 1)" by (rule fl_abs_upper)
  also have "\<dots> \<le> 2 powi (exponent b)"
    using lt by (intro power_int_increasing) simp_all
  also have "\<dots> \<le> fl_abs b"
    using lt exponent_bounds(1)[of a] by (intro fl_abs_lower) linarith
  finally show ?thesis .
qed

lemma fl_abs_nonneg: "0 \<le> a \<Longrightarrow> 0 \<le> fl_abs a"
proof -
  assume "0 \<le> a"
  then have "0 \<le> a / 2 powi (exponent a - 52)" by simp
  then have "rne (of_int 0) \<le> rne (a / 2 powi (exponent a - 52))"
    by (intro rne_mono) simp
  then have "0 \<le> rne (a / 2 powi (exponent a - 52))" by (simp only: rne_of_int)
  then show ?thesis by (simp add: fl_abs_def Let_def)
qed

lemma fl_abs_close: "\<bar>fl_abs a - a\<bar> \<le> 2 powi (exponent a - 52) / 2"
proof -
  define u :: real where "u = 2 powi (exponent a - 52)"
  have u: "0 < u" by (simp add: u_def)
  have "fl_abs a - a = u * (real_of_int (rne (a / u)) - a / u)"
    using u by (simp add: fl_abs_def Let_def u_def field_simps)
  then have "\<bar>fl_abs a - a\<bar> = u * \<bar>real_of_int (rne (a / u)) - a / u\<bar>"
    using u by (simp add: abs_mult)
  also have "\<dots> \<le> u * (1 / 2)"
    using u rne_close[of "a / u"] by (intro mult_left_mono) simp_all
  finally show ?thesis by (simp add: u_def)
qed

lemma fl_abs_int:
  assumes "2 powi e \<le> a" "a < 2 powi (e + 1)" "- 1022 \<le> e" "e \<le> 1023"
    and "a / 2 powi (e - 52) = of_int k"
  shows "fl_abs a = a"
proof -
  have e: "exponent a = e" using assms(1-4) by (rule exponent_eq)
  have "fl_abs a = 2 powi (e - 52) * of_int (rne (of_int k))"
    by (simp add: fl_abs_def Let_def e assms(5))
  also have "\<dots> = 2 powi (e - 52) * (a / 2 powi (e - 52))"
    by (simp only: rne_of_int assms(5))
  finally show ?thesis by simp
qed

lemma fl_abs_0 [simp]: "fl_abs 0 = 0"
  by (simp add: fl_abs_def Let_def rne_def)

lemma fl_abs_5: "fl_abs 5 = 5"
proof (rule fl_abs_int[where e = 2 and k = "5 * 2 ^ 50"])
  show "(5::real) / 2 powi (2 - 52) = of_int (5 * 2 ^ 50)"
    by (simp add: power_int_minus_divide)
qed simp_all

lemma fl_0 [simp]: "fl 0 = Fin 0"
  by (simp add: fl_def)

text \<open>On magnitudes the rounding is monotone, so a product of nonnegative factors is.\<close>

lemma fl_nonneg:
  assumes "0 \<le> x" "fl_abs x < 2 powi 1024"
  shows "fl x = Fin (fl_abs x)"
  using assms by (simp add: fl_def Let_def)

lemma fl_small:
  assumes "0 \<le> x" "x \<le> 5"
  shows "fl x = Fin (fl_abs x)" "0 \<le> fl_abs x" "fl_abs x \<le> 5"
    "\<bar>fl_abs x - x\<bar> \<le> 2 powi (- 51)"
proof -
  show nn: "0 \<le> fl_abs x" using assms(1) by (rule fl_abs_nonneg)
  show le: "fl_abs x \<le> 5" using fl_abs_mono[OF assms(2)] by (simp add: fl_abs_5)
  have "(5::real) < 2 powi 1024" by simp
  with le have "fl_abs x < 2 powi 1024" by linarith
  with assms(1) show "fl x = Fin (fl_abs x)" by (rule fl_nonneg)
  have e: "exponent x \<le> 2"
  proof (rule ccontr)
    assume "\<not> exponent x \<le> 2"
    then have g: "3 \<le> exponent x" by simp
    then have "2 powi (exponent x) \<le> x" by (intro exponent_le) simp
    moreover have "(2::real) powi 3 \<le> 2 powi (exponent x)"
      using g by (intro power_int_increasing) simp_all
    ultimately show False using assms(2) by simp
  qed
  have "\<bar>fl_abs x - x\<bar> \<le> 2 powi (exponent x - 52) / 2" by (rule fl_abs_close)
  also have "\<dots> = 2 powi (exponent x - 52) * 2 powi (- 1)" by (simp add: power_int_minus_divide)
  also have "\<dots> = 2 powi (exponent x - 52 + - 1)" by (subst power_int_add) simp_all
  also have "\<dots> \<le> 2 powi (- 51)" using e by (intro power_int_increasing) simp_all
  finally show "\<bar>fl_abs x - x\<bar> \<le> 2 powi (- 51)" .
qed

text \<open>The rounding evaluated in a known binade.\<close>

lemma fl_in_binade:
  assumes "2 powi e \<le> x" "x < 2 powi (e + 1)" "- 1022 \<le> e" "e \<le> 1022"
  shows "fl x = Fin (2 powi (e - 52) * of_int (rne (x / 2 powi (e - 52))))"
proof -
  have e: "exponent x = e" using assms by (intro exponent_eq) simp_all
  have x: "0 \<le> x" using assms(1) zero_less_power_int[of "2::real" e] by linarith
  have "fl_abs x \<le> 2 powi (exponent x + 1)" using e assms(4) by (intro fl_abs_upper) simp
  also have "\<dots> < 2 powi 1024"
    unfolding e using assms(4) by (intro power_int_strict_increasing) simp_all
  finally have "fl_abs x < 2 powi 1024" .
  with x have "fl x = Fin (fl_abs x)" by (rule fl_nonneg)
  then show ?thesis by (simp add: fl_abs_def Let_def e)
qed

section \<open>Properties of the dashboard\<close>

subsection \<open>The API client reads only\<close>

lemma issue_GET: "req_method (issue c) = GET"
  by (cases c)
     (simp_all add: api_get_def articlesApi_getAll_def articlesApi_getById_def
        articlesApi_getFeatured_def articlesApi_search_def themesApi_getAll_def
        themesApi_getArticles_def insightsApi_getAll_def trendsApi_getAll_def
        trendsApi_getEmerging_def digestsApi_getAll_def digestsApi_getLatest_def
        statsApi_get_def)

text \<open>On a server that writes nothing on a GET request, client calls leave the state.\<close>

lemma after_calls_frame:
  assumes "\<forall>r s. req_method r = GET \<longrightarrow> serve r s = s"
  shows "after_calls serve s cs = s"
  unfolding after_calls_def
  by (induction cs arbitrary: s) (simp_all add: assms issue_GET)




subsection \<open>Articles without analysis\<close>

lemma guarded_elem:
  "react_child (js_and c (JElem e)) = (if truthy c then [ShownElem e] else react_child c)"
  by (simp add: js_and_def)

lemma no_signal_in_value [simp]:
  "\<not> list_ex is_signal_metric (react_child (of_str x))"
  "\<not> list_ex is_signal_metric (react_child (of_arr y))"
  "\<not> list_ex is_signal_metric (react_child (JBool b))"
  "\<not> list_ex is_signal_metric (react_child (JArr xs))"
  "\<not> list_ex is_signal_metric (react_child (js_and (of_arr y) (JBool b)))"
  "\<not> list_ex is_signal_metric (react_child (js_and (JArr xs) (JBool b)))"
  by (cases x; cases y; simp add: js_and_def list_ex_iff)+

lemma no_confidence_in_value [simp]:
  "\<not> list_ex is_confidence_metric (react_child (of_str x))"
  "\<not> list_ex is_confidence_metric (react_child (of_arr y))"
  "\<not> list_ex is_confidence_metric (react_child (JBool b))"
  "\<not> list_ex is_confidence_metric (react_child (JArr xs))"
  "\<not> list_ex is_confidence_metric (react_child (js_and (of_arr y) (JBool b)))"
  "\<not> list_ex is_confidence_metric (react_child (js_and (JArr xs) (JBool b)))"
  by (cases x; cases y; simp add: js_and_def list_ex_iff)+

text \<open>
  When the two scores are \<^verbatim>\<open>null\<close>, neither the card nor the detail view shows a
  signal-strength or an AI-confidence metric.
\<close>

lemma null_scores_hidden:
  assumes "signal_strength a = JNull" and "confidence_score a = JNull"
  shows "\<not> list_ex is_signal_metric (ArticleCard a)"
    and "\<not> list_ex is_confidence_metric (ArticleCard a)"
    and "\<not> list_ex is_signal_metric (detail_children a)"
    and "\<not> list_ex is_confidence_metric (detail_children a)"
  using assms
  by (simp_all add: ArticleCard_def detail_children_def card_signal_def card_sentiment_def
        detail_signal_def detail_sentiment_def detail_confidence_def guarded_elem)

text \<open>
  C2, at an article whose analysis properties are absent (as \<^verbatim>\<open>signal_strength?: number\<close>
  has it): \<^verbatim>\<open>undefined !== null\<close> holds, so the card shows a signal metric and the detail
  view a signal and a confidence metric, each with the text \<^verbatim>\<open>NaN\<close>.
\<close>

theorem absent_scores_shown:
  "ArticleCard bare_article = [ShownElem (SignalMetric FixedNaN)]
   \<and> detail_children bare_article =
       [ShownElem (SignalMetric FixedNaN), ShownElem (ConfidenceMetric FixedNaN)]
   \<and> list_ex is_signal_metric (ArticleCard bare_article)
   \<and> list_ex is_signal_metric (detail_children bare_article)
   \<and> list_ex is_confidence_metric (detail_children bare_article)"
  by (simp add: bare_article_def ArticleCard_def detail_children_def card_signal_def
        card_sentiment_def detail_signal_def detail_sentiment_def detail_confidence_def
        js_and_def)

text \<open>The featured list of the dashboard tests the value itself and shows nothing there.\<close>

lemma Dashboard_signal_bare: "Dashboard_signal bare_article = []"
  by (simp add: Dashboard_signal_def bare_article_def js_and_def)

subsection \<open>The momentum of a trend\<close>

lemma toFixed0_nearest:
  "\<exists>k. fixed_number (toFixed0 (Fin x)) = Some k \<and> \<bar>real_of_int k - x\<bar> \<le> 1 / 2"
proof (cases "x < 0")
  case True
  define k where "k = \<lfloor>- x + 1 / 2\<rfloor>"
  have b: "real_of_int k \<le> - x + 1 / 2" "- x + 1 / 2 < real_of_int k + 1"
    unfolding k_def by linarith+
  have "0 \<le> k" using True unfolding k_def by simp
  then have "fixed_number (toFixed0 (Fin x)) = Some (- k)"
    using True by (simp add: k_def)
  moreover have "\<bar>real_of_int (- k) - x\<bar> \<le> 1 / 2" using b unfolding of_int_minus by linarith
  ultimately show ?thesis by blast
next
  case False
  define k where "k = \<lfloor>x + 1 / 2\<rfloor>"
  have b: "real_of_int k \<le> x + 1 / 2" "x + 1 / 2 < real_of_int k + 1"
    unfolding k_def by linarith+
  have "0 \<le> k" using False unfolding k_def by simp
  then have "fixed_number (toFixed0 (Fin x)) = Some k"
    using False by (simp add: k_def)
  moreover have "\<bar>real_of_int k - x\<bar> \<le> 1 / 2" using b by linarith
  ultimately show ?thesis by blast
qed

text \<open>
  A momentum that is present and not 0 is shown as the indicator with the green class and
  the upward icon, whatever its sign, with the percentage (the double product with 100)
  printed by \<open>toFixed0\<close>, which rounds a finite number to a nearest integer; a momentum
  that is \<^verbatim>\<open>null\<close> or absent shows nothing.
\<close>

lemma momentum_shown:
  "m \<noteq> 0 \<Longrightarrow> momentum_slot (Given m) =
     [ShownElem (MomentumIndicator ''flex items-center text-green-600'' ''ArrowTrendingUpIcon''
        (toFixed0 (js_mult (Fin m) (Fin 100))))]"
  "momentum_slot JNull = []"
  "momentum_slot Missing = []"
  by (simp_all add: momentum_slot_def js_and_def del: js_mult.simps)

text \<open>
  C6, at a trend whose momentum is 0: \<^verbatim>\<open>0 && (...)\<close> is the number 0, and React puts
  the text of a number on the page, so both pages show \<^verbatim>\<open>0\<close> where the indicator would
  stand, not nothing.
\<close>

theorem zero_momentum_shown:
  "TrendsPage_momentum flat_trend = [ShownNumber (Fin 0)]
   \<and> Dashboard_momentum flat_trend = [ShownNumber (Fin 0)]
   \<and> TrendsPage_momentum flat_trend \<noteq> [] \<and> Dashboard_momentum flat_trend \<noteq> []"
  by (simp add: TrendsPage_momentum_def Dashboard_momentum_def momentum_slot_def
        flat_trend_def js_and_def)

subsection \<open>Sentiment styles\<close>

text \<open>
  C7: for every label \<open>s\<close>, the fill of the pie-chart cell, the class of the card's badge
  and the class of the detail view's metric are of the same colour family: green for
  \<^verbatim>\<open>positive\<close>, red for \<^verbatim>\<open>negative\<close>, gray for every other text. The dashboard draws one
  such cell per entry; the card and the detail view show the badge with that class for
  every label but the empty text, for which they show no badge.
\<close>

theorem sentiment_mapping:
  "style_tone (sentimentFill (Given s)) = Some (sentiment_tone s)
   \<and> style_tone (cardSentimentClass (Given s)) = Some (sentiment_tone s)
   \<and> style_tone (detailSentimentClass (Given s)) = Some (sentiment_tone s)
   \<and> Dashboard_sentiment_cells (Given es) = map (\<lambda>e. sentimentFill (sentiment e)) es
   \<and> card_sentiment (a\<lparr>sentiment_label := Given s\<rparr>) =
       (if s = [] then [] else [ShownElem (SentimentBadge (cardSentimentClass (Given s)) s)])
   \<and> detail_sentiment (a\<lparr>sentiment_label := Given s\<rparr>) =
       (if s = [] then [] else [ShownElem (SentimentBadge (detailSentimentClass (Given s)) s)])"
  by (simp add: style_tone_def sentimentFill_def cardSentimentClass_def detailSentimentClass_def
        sentiment_tone_def card_sentiment_def detail_sentiment_def js_and_def)

subsection \<open>Paging of the article list\<close>

lemma handleLoadMore_skip:
  "prev K_skip = FNum (Fin x) \<Longrightarrow> handleLoadMore prev K_skip = FNum (Fin (x + 20))"
  by (simp add: handleLoadMore_def fv_or_def)

lemma handleLoadMore_other: "k \<noteq> K_skip \<Longrightarrow> handleLoadMore prev k = prev k"
  by (simp add: handleLoadMore_def)

lemma handleFilterChange_skip: "handleFilterChange key v prev K_skip = FNum (Fin 0)"
  by (simp add: handleFilterChange_def)

lemma handleFilterChange_key:
  "handleFilterChange key v prev key = (if key = K_skip then FNum (Fin 0) else v)"
  by (simp add: handleFilterChange_def)

lemma handleFilterChange_other:
  "k \<noteq> key \<Longrightarrow> k \<noteq> K_skip \<Longrightarrow> handleFilterChange key v prev k = prev k"
  by (simp add: handleFilterChange_def)

lemma run_ops_snoc: "run_ops (ops @ [x]) = apply_op (run_ops ops) x"
  by (simp add: run_ops_def)

lemma run_ops_skip: "\<exists>n::nat. run_ops ops K_skip = FNum (Fin (20 * real n))"
proof (induction ops rule: rev_induct)
  case Nil
  have "run_ops [] K_skip = FNum (Fin (20 * real 0))"
    by (simp add: run_ops_def initial_filters_def)
  then show ?case by blast
next
  case (snoc x ops)
  then obtain n :: nat where n: "run_ops ops K_skip = FNum (Fin (20 * real n))" by blast
  show ?case
  proof (cases x)
    case (FilterChange key v)
    then have "run_ops (ops @ [x]) K_skip = FNum (Fin (20 * real 0))"
      by (simp add: run_ops_snoc handleFilterChange_skip)
    then show ?thesis by blast
  next
    case LoadMore
    then have "run_ops (ops @ [x]) K_skip = FNum (Fin (20 * real (Suc n)))"
      using handleLoadMore_skip[of "run_ops ops" "20 * real n"] n
      by (simp add: run_ops_snoc algebra_simps)
    then show ?thesis by blast
  qed
qed

lemma run_ops_limit:
  "\<forall>x \<in> set ops. \<not> sets_limit x \<Longrightarrow> run_ops ops K_limit = FNum (Fin 20)"
proof (induction ops rule: rev_induct)
  case Nil
  show ?case by (simp add: run_ops_def initial_filters_def)
next
  case (snoc x ops)
  then have ih: "run_ops ops K_limit = FNum (Fin 20)" and x: "\<not> sets_limit x" by simp_all
  show ?case
  proof (cases x)
    case (FilterChange key v)
    with x have "key \<noteq> K_limit" by simp
    then show ?thesis
      using ih FilterChange by (simp add: run_ops_snoc handleFilterChange_other)
  next
    case LoadMore
    then show ?thesis using ih by (simp add: run_ops_snoc handleLoadMore_other)
  qed
qed

lemma event_op_limit: "\<not> sets_limit (event_op pf e)"
  by (cases e) simp_all

lemma paging_example:
  "run_ops [LoadMore, LoadMore, FilterChange K_theme (FStr ''AI''), LoadMore] K_skip
     = FNum (Fin 20)"
  "run_ops [LoadMore, LoadMore] K_skip = FNum (Fin 40)"
  by (simp_all add: run_ops_def initial_filters_def handleLoadMore_def handleFilterChange_def
        fv_or_def)

text \<open>
  C8: \<open>skip\<close> starts at 0 and \<open>limit\<close> at 20; \<open>handleFilterChange\<close> leaves \<open>skip\<close> at 0 and
  the changed key at the new value (the key \<open>skip\<close> itself at 0); \<open>handleLoadMore\<close> adds
  exactly 20 to \<open>skip\<close>; so after any sequence of the two operations \<open>skip\<close> is 20 times a
  natural number, and \<open>limit\<close> is still 20 as long as no call changes the key \<open>limit\<close>
  itself, which none of the page's five event handlers does: after any sequence of page
  events \<open>skip\<close> is a multiple of 20 and \<open>limit\<close> is 20.
\<close>

theorem filter_paging:
  "initial_filters K_skip = FNum (Fin 0) \<and> initial_filters K_limit = FNum (Fin 20)
   \<and> handleFilterChange key v prev K_skip = FNum (Fin 0)
   \<and> handleFilterChange key v prev key = (if key = K_skip then FNum (Fin 0) else v)
   \<and> (prev K_skip = FNum (Fin x) \<longrightarrow> handleLoadMore prev K_skip = FNum (Fin (x + 20)))
   \<and> (\<exists>n::nat. run_ops ops K_skip = FNum (Fin (20 * real n)))
   \<and> ((\<forall>x \<in> set ops. \<not> sets_limit x) \<longrightarrow> run_ops ops K_limit = FNum (Fin 20))
   \<and> (\<exists>n::nat. run_events pf evs K_skip = FNum (Fin (20 * real n)))
   \<and> run_events pf evs K_limit = FNum (Fin 20)"
proof (intro conjI impI)
  show "initial_filters K_skip = FNum (Fin 0)" by (simp add: initial_filters_def)
  show "initial_filters K_limit = FNum (Fin 20)" by (simp add: initial_filters_def)
  show "handleFilterChange key v prev K_skip = FNum (Fin 0)" by (rule handleFilterChange_skip)
  show "handleFilterChange key v prev key = (if key = K_skip then FNum (Fin 0) else v)"
    by (rule handleFilterChange_key)
  show "handleLoadMore prev K_skip = FNum (Fin (x + 20))" if "prev K_skip = FNum (Fin x)"
    using that by (rule handleLoadMore_skip)
  show "\<exists>n::nat. run_ops ops K_skip = FNum (Fin (20 * real n))" by (rule run_ops_skip)
  show "run_ops ops K_limit = FNum (Fin 20)" if "\<forall>x \<in> set ops. \<not> sets_limit x"
    using that by (rule run_ops_limit)
  show "\<exists>n::nat. run_events pf evs K_skip = FNum (Fin (20 * real n))"
    unfolding run_events_def by (rule run_ops_skip)
  show "run_events pf evs K_limit = FNum (Fin 20)"
    unfolding run_events_def by (rule run_ops_limit) (simp add: event_op_limit)
qed

theorem filter_paging_witness:
  "run_ops [LoadMore, LoadMore, FilterChange K_theme (FStr ''AI''), LoadMore] K_limit
     = FNum (Fin 20)
   \<and> run_ops [LoadMore, LoadMore, FilterChange K_theme (FStr ''AI''), LoadMore] K_skip
     = FNum (Fin 20)
   \<and> handleLoadMore (run_ops [LoadMore, LoadMore]) K_skip = FNum (Fin 60)"
proof -
  let ?ops = "[LoadMore, LoadMore, FilterChange K_theme (FStr ''AI''), LoadMore]"
  have h: "\<forall>x \<in> set ?ops. \<not> sets_limit x" by simp
  from filter_paging[of K_theme "FStr ''AI''" "run_ops [LoadMore, LoadMore]" 40 ?ops
      "\<lambda>s. NaN" "[]"] h paging_example(2)
  show ?thesis by (simp add: paging_example(1))
qed

subsection \<open>The detail page without a usable id\<close>

lemma ws_prefix_Nil: "ws_prefix [] = 0"
  by (simp add: ws_prefix_def StrWhiteSpaceChar_def)

lemma ws_prefix_le: "ws_prefix s \<le> length s"
proof (cases "find (\<lambda>w. take (length w) s = w) StrWhiteSpaceChar")
  case None
  then show ?thesis by (simp add: ws_prefix_def)
next
  case (Some w)
  then have "take (length w) s = w" by (auto simp: find_Some_iff)
  then have "length (take (length w) s) = length w" by simp
  then have "length w \<le> length s" by simp
  with Some show ?thesis by (simp add: ws_prefix_def)
qed

text \<open>The text that \<open>trimStart\<close> returns starts with no white space.\<close>

lemma drop_ws_done: "length s \<le> n \<Longrightarrow> ws_prefix (drop_ws n s) = 0"
proof (induction n arbitrary: s)
  case 0
  then show ?case by (simp add: ws_prefix_Nil)
next
  case (Suc n)
  show ?case
  proof (cases "ws_prefix s = 0")
    case True
    then show ?thesis by simp
  next
    case False
    with Suc.prems ws_prefix_le[of s] have "length (drop (ws_prefix s) s) \<le> n" by simp
    with False show ?thesis by (simp add: Suc.IH)
  qed
qed

lemma trimStart_done: "ws_prefix (trimStart s) = 0"
  unfolding trimStart_def by (rule drop_ws_done) simp

lemma articleId_None: "articleId None = Fin 0"
  by (simp add: articleId_def parseInt_def trimStart_def ws_prefix_def StrWhiteSpaceChar_def
        radix_digit_def digit_value_def Let_def)

lemma articleId_zero: "articleId (Some ''0'') = Fin 0"
  by (simp add: articleId_def parseInt_def trimStart_def ws_prefix_def StrWhiteSpaceChar_def
        radix_digit_def digit_value_def Let_def)

lemma articleId_abc: "articleId (Some ''abc'') = NaN"
  by (simp add: articleId_def parseInt_def trimStart_def ws_prefix_def StrWhiteSpaceChar_def
        radix_digit_def digit_value_def Let_def)

text \<open>
  C9: when the route parameter is missing, is the text \<^verbatim>\<open>0\<close>, or is read by
  \<^verbatim>\<open>parseInt\<close> as 0 or NaN, the article query is not enabled, the page sends no request,
  and it shows the not-found state whatever the server would have answered.
\<close>

theorem detail_disabled:
  "(i = None \<or> i = Some ''0'' \<or> articleId i = Fin 0 \<or> articleId i = NaN) \<longrightarrow>
     \<not> query_enabled i \<and> ArticleDetail_requests i = [] \<and> ArticleDetail i f = NotFound"
proof
  assume "i = None \<or> i = Some ''0'' \<or> articleId i = Fin 0 \<or> articleId i = NaN"
  then have "articleId i = Fin 0 \<or> articleId i = NaN"
    using articleId_None articleId_zero by auto
  then have off: "\<not> query_enabled i" by (auto simp: query_enabled_def)
  then show "\<not> query_enabled i \<and> ArticleDetail_requests i = [] \<and> ArticleDetail i f = NotFound"
    by (simp add: ArticleDetail_requests_def ArticleDetail_def)
qed

theorem detail_disabled_witness:
  "articleId (Some ''abc'') = NaN \<and> ArticleDetail_requests (Some ''abc'') = []
   \<and> ArticleDetail (Some ''abc'') Pending = NotFound
   \<and> ArticleDetail None Pending = NotFound \<and> ArticleDetail (Some ''0'') Rejected = NotFound"
  using detail_disabled[of "Some ''abc''" Pending] detail_disabled[of None Pending]
    detail_disabled[of "Some ''0''" Rejected] articleId_abc
  by simp

subsection \<open>The signal bars\<close>

lemma upt5: "[0..<5] = [0, 1, 2, 3, 4::nat]"
  by (simp add: upt_rec)

lemma SignalStrength_bars:
  "SignalStrength n =
     map (\<lambda>i. Bar ((i + 1) * 2)
                (if js_lt (Fin (real i)) (Math_round (js_mult n (Fin 5)))
                 then ''bg-green-500'' else ''bg-gray-300''))
       [0, 1, 2, 3, 4]"
  by (simp add: SignalStrength_def Let_def upt5)

lemma bars_shape:
  "map bar_colour (map (\<lambda>i. Bar ((i + 1) * 2)
       (if js_lt (Fin (real i)) b then ''bg-green-500'' else ''bg-gray-300'')) [0, 1, 2, 3, 4])
   = replicate (length (filter is_green (map (\<lambda>i. Bar ((i + 1) * 2)
       (if js_lt (Fin (real i)) b then ''bg-green-500'' else ''bg-gray-300'')) [0, 1, 2, 3, 4])))
       ''bg-green-500''
     @ replicate (5 - length (filter is_green (map (\<lambda>i. Bar ((i + 1) * 2)
       (if js_lt (Fin (real i)) b then ''bg-green-500'' else ''bg-gray-300'')) [0, 1, 2, 3, 4])))
       ''bg-gray-300''"
proof (cases b)
  case NaN
  then show ?thesis by (simp add: numeral_eq_Suc)
next
  case PosInf
  then show ?thesis by (simp add: numeral_eq_Suc)
next
  case NegInf
  then show ?thesis by (simp add: numeral_eq_Suc)
next
  case (Fin r)
  consider "r \<le> 0" | "0 < r" "r \<le> 1" | "1 < r" "r \<le> 2" | "2 < r" "r \<le> 3"
    | "3 < r" "r \<le> 4" | "4 < r" by linarith
  then show ?thesis
    by cases (simp_all add: Fin numeral_eq_Suc)
qed

lemma greens_of_bars:
  assumes "Math_round (js_mult n (Fin 5)) = Fin (of_int k)"
  shows "greens (SignalStrength n) = nat (min 5 (max 0 k))"
proof -
  have "length (filter is_green (map (\<lambda>i. Bar ((i + 1) * 2)
          (if int i < k then ''bg-green-500'' else ''bg-gray-300'')) [0, 1, 2, 3, 4::nat]))
        = nat (min 5 (max 0 k))"
    by simp arith
  moreover have "js_lt (Fin (real i)) (Fin (real_of_int k)) = (int i < k)" for i
    by simp linarith
  ultimately show ?thesis
    unfolding greens_def SignalStrength_bars assms by simp
qed

lemma bars_unit:
  assumes "0 \<le> v" "v \<le> 1"
  shows "Math_round (js_mult (Fin v) (Fin 5)) = Fin (of_int \<lfloor>fl_abs (v * 5) + 1 / 2\<rfloor>)"
    and "0 \<le> \<lfloor>fl_abs (v * 5) + 1 / 2\<rfloor>" and "\<lfloor>fl_abs (v * 5) + 1 / 2\<rfloor> \<le> 5"
    and "\<bar>of_int \<lfloor>fl_abs (v * 5) + 1 / 2\<rfloor> - v * 5\<bar> \<le> 1 / 2 + 2 powi (- 51)"
proof -
  have x: "0 \<le> v * 5" "v * 5 \<le> 5" using assms by simp_all
  note s = fl_small[OF x]
  show "Math_round (js_mult (Fin v) (Fin 5)) = Fin (of_int \<lfloor>fl_abs (v * 5) + 1 / 2\<rfloor>)"
    by (simp add: s(1))
  show "0 \<le> \<lfloor>fl_abs (v * 5) + 1 / 2\<rfloor>" using s(2) by simp
  have "fl_abs (v * 5) + 1 / 2 < 6" using s(3) by simp
  then have "\<lfloor>fl_abs (v * 5) + 1 / 2\<rfloor> < 6" by (simp add: floor_less_iff)
  then show "\<lfloor>fl_abs (v * 5) + 1 / 2\<rfloor> \<le> 5" by simp
  have "\<bar>of_int \<lfloor>fl_abs (v * 5) + 1 / 2\<rfloor> - fl_abs (v * 5)\<bar> \<le> 1 / 2" by linarith
  with s(4) show "\<bar>of_int \<lfloor>fl_abs (v * 5) + 1 / 2\<rfloor> - v * 5\<bar> \<le> 1 / 2 + 2 powi (- 51)"
    by linarith
qed

lemma greens_unit:
  assumes "0 \<le> v" "v \<le> 1"
  shows "int (greens (SignalStrength (Fin v))) = \<lfloor>fl_abs (v * 5) + 1 / 2\<rfloor>"
  using greens_of_bars[OF bars_unit(1)[OF assms]] bars_unit(2,3)[OF assms] by simp

text \<open>
  C10: for every number the component draws exactly 5 bars; bar \<open>i\<close> is green exactly
  when \<open>i\<close> is below \<^verbatim>\<open>Math.round(value * 5)\<close> and gray otherwise, so the green bars come
  first and the gray ones after them; for a value \<open>v\<close> between 0 and 1 that rounded
  product is an integer \<open>k\<close> between 0 and 5, within a rounding error of the double
  product of \<open>round (v * 5)\<close>, and \<open>k\<close> is the number of green bars; that number does not
  decrease when \<open>v\<close> grows.
\<close>

theorem signal_bars:
  "length (SignalStrength n) = 5
   \<and> (\<forall>i < 5. (is_green (SignalStrength n ! i)
                 \<longleftrightarrow> js_lt (Fin (real i)) (Math_round (js_mult n (Fin 5))))
             \<and> (is_gray (SignalStrength n ! i)
                 \<longleftrightarrow> \<not> js_lt (Fin (real i)) (Math_round (js_mult n (Fin 5)))))
   \<and> map bar_colour (SignalStrength n) =
       replicate (greens (SignalStrength n)) ''bg-green-500''
       @ replicate (5 - greens (SignalStrength n)) ''bg-gray-300''
   \<and> (0 \<le> v \<and> v \<le> 1 \<longrightarrow>
        (\<exists>k. Math_round (js_mult (Fin v) (Fin 5)) = Fin (of_int k) \<and> 0 \<le> k \<and> k \<le> 5
           \<and> int (greens (SignalStrength (Fin v))) = k
           \<and> \<bar>of_int k - v * 5\<bar> \<le> 1 / 2 + 2 powi (- 51)))
   \<and> (0 \<le> v \<and> v \<le> w \<and> w \<le> 1 \<longrightarrow>
        greens (SignalStrength (Fin v)) \<le> greens (SignalStrength (Fin w)))"
proof (intro conjI allI impI)
  show "length (SignalStrength n) = 5" by (simp add: SignalStrength_bars)
next
  fix i :: nat assume "i < 5"
  then consider "i = 0" | "i = 1" | "i = 2" | "i = 3" | "i = 4" by linarith
  then show "is_green (SignalStrength n ! i)
      \<longleftrightarrow> js_lt (Fin (real i)) (Math_round (js_mult n (Fin 5)))"
    by cases (simp_all add: SignalStrength_bars)
next
  fix i :: nat assume "i < 5"
  then consider "i = 0" | "i = 1" | "i = 2" | "i = 3" | "i = 4" by linarith
  then show "is_gray (SignalStrength n ! i)
      \<longleftrightarrow> \<not> js_lt (Fin (real i)) (Math_round (js_mult n (Fin 5)))"
    by cases (simp_all add: SignalStrength_bars)
next
  show "map bar_colour (SignalStrength n) =
       replicate (greens (SignalStrength n)) ''bg-green-500''
       @ replicate (5 - greens (SignalStrength n)) ''bg-gray-300''"
    unfolding greens_def SignalStrength_bars by (rule bars_shape)
next
  assume "0 \<le> v \<and> v \<le> 1"
  then have v: "0 \<le> v" "v \<le> 1" by simp_all
  show "\<exists>k. Math_round (js_mult (Fin v) (Fin 5)) = Fin (of_int k) \<and> 0 \<le> k \<and> k \<le> 5
           \<and> int (greens (SignalStrength (Fin v))) = k
           \<and> \<bar>of_int k - v * 5\<bar> \<le> 1 / 2 + 2 powi (- 51)"
    using bars_unit[OF v] greens_unit[OF v] by blast
next
  assume "0 \<le> v \<and> v \<le> w \<and> w \<le> 1"
  then have v: "0 \<le> v" "v \<le> 1" and w: "0 \<le> w" "w \<le> 1" and vw: "v * 5 \<le> w * 5"
    by simp_all
  have "fl_abs (v * 5) \<le> fl_abs (w * 5)" using vw by (rule fl_abs_mono)
  then have "\<lfloor>fl_abs (v * 5) + 1 / 2\<rfloor> \<le> \<lfloor>fl_abs (w * 5) + 1 / 2\<rfloor>"
    by (intro floor_mono) simp
  then have "int (greens (SignalStrength (Fin v))) \<le> int (greens (SignalStrength (Fin w)))"
    by (simp only: greens_unit[OF v] greens_unit[OF w])
  then show "greens (SignalStrength (Fin v)) \<le> greens (SignalStrength (Fin w))" by simp
qed

text \<open>The doubles nearest to 0.3 and to 0.7.\<close>

lemma bars_at_03:
  "Math_round (js_mult (Fin (5404319552844595 / 18014398509481984)) (Fin 5)) = Fin (of_int 2)"
proof -
  have "fl (5404319552844595 / 18014398509481984 * 5)
        = Fin (2 powi (0 - 52) * of_int (rne (5404319552844595 / 18014398509481984 * 5 / 2 powi (0 - 52))))"
    by (rule fl_in_binade) simp_all
  then show ?thesis by (simp add: rne_def Let_def power_int_minus_divide)
qed

lemma bars_at_07:
  "Math_round (js_mult (Fin (6305039478318694 / 9007199254740992)) (Fin 5)) = Fin (of_int 4)"
proof -
  have "fl (6305039478318694 / 9007199254740992 * 5)
        = Fin (2 powi (1 - 52) * of_int (rne (6305039478318694 / 9007199254740992 * 5 / 2 powi (1 - 52))))"
    by (rule fl_in_binade) simp_all
  then show ?thesis by (simp add: rne_def Let_def power_int_minus_divide)
qed

theorem signal_bars_witness:
  "greens (SignalStrength (Fin (5404319552844595 / 18014398509481984))) = 2
   \<and> greens (SignalStrength (Fin (6305039478318694 / 9007199254740992))) = 4
   \<and> greens (SignalStrength (Fin (5404319552844595 / 18014398509481984)))
       \<le> greens (SignalStrength (Fin (6305039478318694 / 9007199254740992)))
   \<and> is_green (SignalStrength (Fin (5404319552844595 / 18014398509481984)) ! 1)
   \<and> is_gray (SignalStrength (Fin (5404319552844595 / 18014398509481984)) ! 2)"
proof -
  let ?v = "5404319552844595 / 18014398509481984 :: real"
  let ?w = "6305039478318694 / 9007199254740992 :: real"
  have h1: "0 \<le> ?v \<and> ?v \<le> 1" by simp
  have h2: "0 \<le> ?v \<and> ?v \<le> ?w \<and> ?w \<le> 1" by simp
  have h3: "(1::nat) < 5" "(2::nat) < 5" by simp_all
  have g: "greens (SignalStrength (Fin ?v)) = 2" "greens (SignalStrength (Fin ?w)) = 4"
    using greens_of_bars[OF bars_at_03] greens_of_bars[OF bars_at_07] by simp_all
  from signal_bars[of "Fin ?v" ?v ?w] h1 h2 h3 g bars_at_03 show ?thesis by simp
qed

text \<open>A value that is not a number leaves all five bars gray.\<close>

lemma nan_bars_gray: "greens (SignalStrength NaN) = 0 \<and> length (SignalStrength NaN) = 5"
  by (simp add: SignalStrength_bars greens_def)

section \<open>Properties of the pipeline as specified\<close>

subsection \<open>Analyzer scores\<close>

lemma validate_ranges:
  "validate_response cfg r = Some a \<Longrightarrow>
     0 \<le> an_signal_strength a \<and> an_signal_strength a \<le> 1
     \<and> 0 \<le> an_confidence_score a \<and> an_confidence_score a \<le> 1
     \<and> - 1 \<le> an_sentiment_score a \<and> an_sentiment_score a \<le> 1"
  by (auto simp: validate_response_def split: option.splits if_splits)

lemma retry_ranges:
  "retry cfg capability k bad n = AnalysisResult a \<Longrightarrow>
     0 \<le> an_signal_strength a \<and> an_signal_strength a \<le> 1
     \<and> 0 \<le> an_confidence_score a \<and> an_confidence_score a \<le> 1
     \<and> - 1 \<le> an_sentiment_score a \<and> an_sentiment_score a \<le> 1"
proof (induction n arbitrary: k bad)
  case 0
  then show ?case by simp
next
  case (Suc n)
  show ?case
  proof (cases "capability k")
    case (Responded r)
    show ?thesis
    proof (cases "validate_response cfg r")
      case None
      with Suc.prems Responded have "retry cfg capability (Suc k) True n = AnalysisResult a"
        by simp
      then show ?thesis by (rule Suc.IH)
    next
      case (Some b)
      with Suc.prems Responded have "b = a" by simp
      with Some show ?thesis using validate_ranges by blast
    qed
  next
    case Timeout
    with Suc.prems have "retry cfg capability (Suc k) False n = AnalysisResult a" by simp
    then show ?thesis by (rule Suc.IH)
  next
    case RateLimited
    with Suc.prems have "retry cfg capability (Suc k) False n = AnalysisResult a" by simp
    then show ?thesis by (rule Suc.IH)
  qed
qed

lemma analyze_ranges:
  "analyze cfg capability = AnalysisResult a \<Longrightarrow>
     0 \<le> an_signal_strength a \<and> an_signal_strength a \<le> 1
     \<and> 0 \<le> an_confidence_score a \<and> an_confidence_score a \<le> 1
     \<and> - 1 \<le> an_sentiment_score a \<and> an_sentiment_score a \<le> 1"
  unfolding analyze_def by (rule retry_ranges)

lemma record_outcome_range:
  "scores_in_range a \<Longrightarrow> scores_in_range (record_outcome a (analyze cfg capability))"
proof (cases "analyze cfg capability")
  case (AnalysisResult r)
  assume "scores_in_range a"
  from analyze_ranges[OF AnalysisResult] show ?thesis
    by (simp add: AnalysisResult scores_in_range_def in_range_def)
next
  case (AnalysisFailure f)
  assume "scores_in_range a"
  then show ?thesis by (simp add: AnalysisFailure scores_in_range_def)
qed

lemma analysed_snoc:
  "analysed cfg a (caps @ [c]) = record_outcome (analysed cfg a caps) (analyze cfg c)"
  by (simp add: analysed_def)

lemma analysed_range: "scores_in_range a \<Longrightarrow> scores_in_range (analysed cfg a caps)"
  by (induction caps rule: rev_induct) (simp_all add: analysed_snoc record_outcome_range, simp add: analysed_def)

lemma new_article_range: "scores_in_range (new_article cfg i d)"
  by (simp add: new_article_def scores_in_range_def in_range_def)

lemma analysed_absent:
  "((pa_signal_strength (analysed cfg (new_article cfg i d) caps) = None
       \<and> pa_confidence_score (analysed cfg (new_article cfg i d) caps) = None
       \<and> pa_sentiment_score (analysed cfg (new_article cfg i d) caps) = None)
      \<longleftrightarrow> (\<forall>c \<in> set caps. \<not> succeeded (analyze cfg c)))
   \<and> ((pa_signal_strength (analysed cfg (new_article cfg i d) caps) \<noteq> None
       \<and> pa_confidence_score (analysed cfg (new_article cfg i d) caps) \<noteq> None
       \<and> pa_sentiment_score (analysed cfg (new_article cfg i d) caps) \<noteq> None)
      \<longleftrightarrow> \<not> (\<forall>c \<in> set caps. \<not> succeeded (analyze cfg c)))"
proof (induction caps rule: rev_induct)
  case Nil
  show ?case by (simp add: analysed_def new_article_def)
next
  case (snoc c caps)
  show ?case
  proof (cases "analyze cfg c")
    case (AnalysisResult r)
    then show ?thesis by (simp add: analysed_snoc)
  next
    case (AnalysisFailure f)
    then show ?thesis using snoc by (simp add: analysed_snoc)
  qed
qed

lemma run_pipeline_snoc:
  "run_pipeline cfg env store (docs @ [d]) = ingest_one cfg env (run_pipeline cfg env store docs) d"
  by (simp add: run_pipeline_def)

lemma run_pipeline_range:
  "\<forall>a \<in> set store. scores_in_range a \<Longrightarrow>
   \<forall>a \<in> set (run_pipeline cfg env store docs). scores_in_range a"
proof (induction docs rule: rev_induct)
  case Nil
  then show ?case by (simp add: run_pipeline_def)
next
  case (snoc d docs)
  then have ih: "\<forall>a \<in> set (run_pipeline cfg env store docs). scores_in_range a" by simp
  show ?case
    using ih record_outcome_range[OF new_article_range]
    by (auto simp: run_pipeline_snoc ingest_one_def)
qed

lemma analysed_fields:
  "(pa_signal_strength (analysed cfg (new_article cfg i d) caps) = None
      \<longleftrightarrow> (\<forall>c \<in> set caps. \<not> succeeded (analyze cfg c)))
   \<and> (pa_confidence_score (analysed cfg (new_article cfg i d) caps) = None
      \<longleftrightarrow> (\<forall>c \<in> set caps. \<not> succeeded (analyze cfg c)))
   \<and> (pa_sentiment_score (analysed cfg (new_article cfg i d) caps) = None
      \<longleftrightarrow> (\<forall>c \<in> set caps. \<not> succeeded (analyze cfg c)))"
  using analysed_absent[of cfg i d caps] by blast

lemma in_rangeD: "in_range lo hi v \<Longrightarrow> v = Some x \<Longrightarrow> lo \<le> x \<and> x \<le> hi"
  by (simp add: in_range_def)

lemma analyze_third_time: "analyze sample_config third_time = AnalysisResult
   \<lparr> an_summary = ''Summary'', an_key_takeaways = [''one'', ''two'', ''three''],
     an_theme_guess = ''AI Governance'', an_sentiment_label = Positive,
     an_sentiment_score = 1 / 2, an_signal_strength = 4 / 5, an_confidence_score = 9 / 10 \<rparr>"
  by (simp add: analyze_def sample_config_def third_time_def good_response_def
        validate_response_def parse_label_def eval_nat_numeral)

lemma analyze_always_down: "analyze sample_config always_down = AnalysisFailure TransientExhausted"
  by (simp add: analyze_def sample_config_def always_down_def eval_nat_numeral)

text \<open>
  C5: on an Article that has gone through any series of Analyzer runs since it was first
  persisted, a signal strength and a confidence score that are present lie between 0 and
  1 and a present sentiment score between -1 and 1; each of the three fields is absent
  exactly when none of the runs succeeded; and the ranges hold for every Article a
  pipeline run persists.
\<close>

theorem scores_bounded:
  "(\<forall>x. pa_signal_strength (analysed cfg (new_article cfg i d) caps) = Some x \<longrightarrow> 0 \<le> x \<and> x \<le> 1)
   \<and> (\<forall>x. pa_confidence_score (analysed cfg (new_article cfg i d) caps) = Some x \<longrightarrow> 0 \<le> x \<and> x \<le> 1)
   \<and> (\<forall>x. pa_sentiment_score (analysed cfg (new_article cfg i d) caps) = Some x \<longrightarrow> - 1 \<le> x \<and> x \<le> 1)
   \<and> (pa_signal_strength (analysed cfg (new_article cfg i d) caps) = None
        \<longleftrightarrow> (\<forall>c \<in> set caps. \<not> succeeded (analyze cfg c)))
   \<and> (pa_confidence_score (analysed cfg (new_article cfg i d) caps) = None
        \<longleftrightarrow> (\<forall>c \<in> set caps. \<not> succeeded (analyze cfg c)))
   \<and> (pa_sentiment_score (analysed cfg (new_article cfg i d) caps) = None
        \<longleftrightarrow> (\<forall>c \<in> set caps. \<not> succeeded (analyze cfg c)))
   \<and> (\<forall>a \<in> set (run_pipeline cfg env [] docs). scores_in_range a)"
proof -
  have r: "scores_in_range (analysed cfg (new_article cfg i d) caps)"
    by (rule analysed_range) (rule new_article_range)
  have p: "\<forall>a \<in> set (run_pipeline cfg env [] docs). scores_in_range a"
    by (rule run_pipeline_range) simp
  from r have b:
    "\<forall>x. pa_signal_strength (analysed cfg (new_article cfg i d) caps) = Some x \<longrightarrow> 0 \<le> x \<and> x \<le> 1"
    "\<forall>x. pa_confidence_score (analysed cfg (new_article cfg i d) caps) = Some x \<longrightarrow> 0 \<le> x \<and> x \<le> 1"
    "\<forall>x. pa_sentiment_score (analysed cfg (new_article cfg i d) caps) = Some x \<longrightarrow> - 1 \<le> x \<and> x \<le> 1"
    unfolding scores_in_range_def by (blast dest: in_rangeD)+
  from b p analysed_fields[of cfg i d caps] show ?thesis by blast
qed

theorem scores_bounded_witness:
  "pa_signal_strength (analysed sample_config (new_article sample_config 1 (sample_doc ''u''))
      [always_down, third_time]) = Some (4 / 5)
   \<and> pa_signal_strength (analysed sample_config (new_article sample_config 1 (sample_doc ''u''))
      [always_down]) = None
   \<and> \<not> succeeded (analyze sample_config always_down)
   \<and> succeeded (analyze sample_config third_time)
   \<and> scores_in_range (hd (run_pipeline sample_config (\<lambda>d. third_time) [] sample_docs))"
proof -
  have a: "pa_signal_strength (analysed sample_config (new_article sample_config 1 (sample_doc ''u''))
      [always_down, third_time]) = Some (4 / 5)"
    by (simp add: analysed_def analyze_third_time analyze_always_down)
  have h: "\<forall>c \<in> set [always_down]. \<not> succeeded (analyze sample_config c)"
    by (simp add: analyze_always_down)
  have m: "hd (run_pipeline sample_config (\<lambda>d. third_time) [] sample_docs)
             \<in> set (run_pipeline sample_config (\<lambda>d. third_time) [] sample_docs)"
    by (simp add: run_pipeline_def sample_docs_def ingest_one_def well_formed_def sample_doc_def
          isNew_def resolveExistingId_def)
  from scores_bounded[of sample_config 1 "sample_doc ''u''" "[always_down]" "\<lambda>d. third_time" sample_docs]
    h m a
  show ?thesis by (simp add: analyze_third_time analyze_always_down)
qed

subsection \<open>Idempotent ingestion\<close>

lemma record_outcome_url [simp]: "pa_url (record_outcome a out) = pa_url a"
  by (cases out) simp_all

lemma new_article_url [simp]: "pa_url (new_article cfg i d) = normalize_url cfg (doc_url d)"
  by (simp add: new_article_def)

lemma find_none: "find P xs = None \<longleftrightarrow> (\<forall>x \<in> set xs. \<not> P x)"
  by (induction xs) simp_all

lemma find_some_mem: "find P xs = Some a \<Longrightarrow> a \<in> set xs \<and> P a"
  by (induction xs) (auto split: if_splits)

lemma isNew_iff:
  "isNew cfg store d \<longleftrightarrow>
     (\<forall>a \<in> set store. pa_url a \<noteq> normalize_url cfg (doc_url d) \<and> \<not> near_duplicate cfg d a)"
proof (cases "find (\<lambda>a. pa_url a = normalize_url cfg (doc_url d)) store")
  case None
  then have "\<forall>a \<in> set store. pa_url a \<noteq> normalize_url cfg (doc_url d)"
    by (simp add: find_none)
  moreover have "isNew cfg store d \<longleftrightarrow> find (near_duplicate cfg d) store = None"
    by (simp add: isNew_def resolveExistingId_def None)
  ultimately show ?thesis by (simp add: find_none)
next
  case (Some a)
  then have "a \<in> set store \<and> pa_url a = normalize_url cfg (doc_url d)"
    by (rule find_some_mem)
  moreover have "\<not> isNew cfg store d"
    by (simp add: isNew_def resolveExistingId_def Some)
  ultimately show ?thesis by blast
qed

lemma known_mono: "known cfg store d \<Longrightarrow> set store \<subseteq> set store' \<Longrightarrow> known cfg store' d"
  by (auto simp: known_def isNew_iff)

lemma ingest_one_subset: "set store \<subseteq> set (ingest_one cfg env store d)"
  by (auto simp: ingest_one_def)

lemma ingest_one_known: "known cfg (ingest_one cfg env store d) d"
  by (auto simp: ingest_one_def known_def isNew_iff)

lemma ingest_one_idle: "known cfg store d \<Longrightarrow> ingest_one cfg env store d = store"
  by (auto simp: ingest_one_def known_def)

lemma run_pipeline_subset: "set store \<subseteq> set (run_pipeline cfg env store docs)"
proof (induction docs rule: rev_induct)
  case Nil
  show ?case by (simp add: run_pipeline_def)
next
  case (snoc d docs)
  then show ?case using ingest_one_subset[of "run_pipeline cfg env store docs" cfg env d]
    by (auto simp: run_pipeline_snoc)
qed

lemma run_pipeline_known:
  "d \<in> set docs \<Longrightarrow> known cfg (run_pipeline cfg env store docs) d"
proof (induction docs rule: rev_induct)
  case Nil
  then show ?case by simp
next
  case (snoc x docs)
  show ?case
  proof (cases "d = x")
    case True
    then show ?thesis by (simp add: run_pipeline_snoc ingest_one_known)
  next
    case False
    with snoc have "known cfg (run_pipeline cfg env store docs) d" by simp
    then show ?thesis
      unfolding run_pipeline_snoc by (rule known_mono) (rule ingest_one_subset)
  qed
qed

lemma run_pipeline_idle:
  "\<forall>d \<in> set docs. known cfg store d \<Longrightarrow> run_pipeline cfg env store docs = store"
  by (induction docs rule: rev_induct) (simp_all add: run_pipeline_def ingest_one_idle)

lemma run_pipeline_twice:
  "run_pipeline cfg env' (run_pipeline cfg env store docs) docs = run_pipeline cfg env store docs"
  by (rule run_pipeline_idle) (simp add: run_pipeline_known)

lemma ingest_one_distinct:
  "distinct (map pa_url store) \<Longrightarrow> distinct (map pa_url (ingest_one cfg env store d))"
  by (auto simp: ingest_one_def isNew_iff)

lemma run_pipeline_distinct:
  "distinct (map pa_url store) \<Longrightarrow> distinct (map pa_url (run_pipeline cfg env store docs))"
  by (induction docs rule: rev_induct) (simp_all add: run_pipeline_snoc ingest_one_distinct, simp add: run_pipeline_def)

lemma distinct_count_le1:
  "distinct (map f xs) \<Longrightarrow> length (filter (\<lambda>a. f a = u) xs) \<le> 1"
proof (induction xs)
  case Nil
  show ?case by simp
next
  case (Cons a xs)
  show ?case
  proof (cases "f a = u")
    case True
    from Cons.prems have "f a \<notin> f ` set xs" by simp
    with True have "\<forall>x \<in> set xs. f x \<noteq> u" by blast
    then have "filter (\<lambda>a. f a = u) xs = []" by (simp add: filter_empty_conv)
    with True show ?thesis by simp
  next
    case False
    with Cons show ?thesis by simp
  qed
qed

lemma sample_run:
  "map pa_url (run_pipeline sample_config (\<lambda>d. always_down) [] sample_docs)
     = [''http://a.example/x'', ''http://b.example/y'']"
  by (simp add: run_pipeline_def sample_docs_def ingest_one_def well_formed_def sample_doc_def
        isNew_def resolveExistingId_def sample_config_def new_article_def)

text \<open>
  C3: a pipeline run keeps the normalized URLs of the stored Articles distinct, so at
  most one Article exists for any normalized URL; and running the pipeline a second time
  on the same fetch output, whatever the Analyzer does then, leaves the store, and so the
  Article count, as the first run left it.
\<close>

theorem ingestion_idempotent:
  "(distinct (map pa_url store) \<longrightarrow>
      distinct (map pa_url (run_pipeline cfg env store docs))
      \<and> length (filter (\<lambda>a. pa_url a = u) (run_pipeline cfg env store docs)) \<le> 1)
   \<and> run_pipeline cfg env' (run_pipeline cfg env store docs) docs = run_pipeline cfg env store docs
   \<and> length (run_pipeline cfg env' (run_pipeline cfg env store docs) docs)
       = length (run_pipeline cfg env store docs)"
  using run_pipeline_distinct[of store cfg env docs]
    distinct_count_le1[of pa_url "run_pipeline cfg env store docs" u]
  by (simp add: run_pipeline_twice)

theorem ingestion_idempotent_witness:
  "length (run_pipeline sample_config (\<lambda>d. always_down) [] sample_docs) = 2
   \<and> length (run_pipeline sample_config (\<lambda>d. third_time)
        (run_pipeline sample_config (\<lambda>d. always_down) [] sample_docs) sample_docs) = 2
   \<and> length (filter (\<lambda>a. pa_url a = ''http://a.example/x'')
        (run_pipeline sample_config (\<lambda>d. always_down) [] sample_docs)) \<le> 1"
proof -
  have h: "distinct (map pa_url ([] :: pipeline_article list))" by simp
  have l: "length (run_pipeline sample_config (\<lambda>d. always_down) [] sample_docs) = 2"
    using arg_cong[OF sample_run, of length] by simp
  from ingestion_idempotent[of "[]" sample_config "\<lambda>d. always_down" sample_docs
      "''http://a.example/x''" "\<lambda>d. third_time"] h l
  show ?thesis by simp
qed

subsection \<open>Trend status\<close>

lemma next_status_edge: "next_status cfg s m = s \<or> allowed_edge s (next_status cfg s m)"
  by (cases s) (simp_all add: allowed_edge_def)

lemma next_status_Emerging: "next_status cfg s m = Emerging \<Longrightarrow> s = Emerging"
  by (cases s) (simp_all split: if_splits)

lemma status_trace_length: "length (status_trace cfg s ms) = Suc (length ms)"
  by (induction ms arbitrary: s) simp_all

lemma status_trace_nonempty: "status_trace cfg s ms \<noteq> []"
  by (cases ms) simp_all

lemma status_trace_hd: "hd (status_trace cfg s ms) = s"
  by (cases ms) simp_all

lemma status_trace_0: "status_trace cfg s ms ! 0 = s"
  by (cases ms) simp_all

lemma status_trace_steps:
  "Suc i < length (status_trace cfg s ms) \<Longrightarrow>
     status_trace cfg s ms ! Suc i = status_trace cfg s ms ! i
     \<or> allowed_edge (status_trace cfg s ms ! i) (status_trace cfg s ms ! Suc i)"
proof (induction ms arbitrary: s i)
  case Nil
  then show ?case by simp
next
  case (Cons m ms)
  show ?case
  proof (cases i)
    case 0
    then show ?thesis
      using next_status_edge[of cfg s m] by (auto simp: status_trace_0)
  next
    case (Suc j)
    with Cons.prems have "Suc j < length (status_trace cfg (next_status cfg s m) ms)" by simp
    from Cons.IH[OF this] Suc show ?thesis by simp
  qed
qed

lemma entries_Emerging: "entries Emerging (status_trace cfg s ms) = 0"
proof (induction ms arbitrary: s)
  case Nil
  then show ?case by simp
next
  case (Cons m ms)
  obtain t where t: "status_trace cfg (next_status cfg s m) ms = next_status cfg s m # t"
    by (cases ms) simp_all
  have "entries Emerging (s # next_status cfg s m # t) =
        (if s \<noteq> Emerging \<and> next_status cfg s m = Emerging then 1 else 0)
        + entries Emerging (next_status cfg s m # t)" by simp
  also have "\<dots> = 0"
    using Cons.IH[of "next_status cfg s m"] next_status_Emerging[of cfg s m] by (auto simp: t)
  finally show ?case by (simp add: t)
qed

lemma trace_example:
  "status_trace \<lparr>growth_threshold = 1 / 5, zero_band = 1 / 20\<rparr> Emerging
     [1 / 2, 3 / 10, 1 / 100, - 1 / 5, 2 / 5]
   = [Emerging, Growing, Growing, Peak, Declining, Growing]"
  by simp

text \<open>
  C4: along the statuses a Trend takes on over its runs, whatever the momenta and the
  thresholds, every step either keeps the status or follows one of the four edges
  emerging to growing, growing to peak, peak to declining, declining to growing; and the
  Trend enters emerging at most once (exactly once, at its creation, when it starts there).
\<close>

theorem trend_edges:
  "length (status_trace cfg s ms) = Suc (length ms)
   \<and> (\<forall>i. Suc i < length (status_trace cfg s ms) \<longrightarrow>
          status_trace cfg s ms ! Suc i = status_trace cfg s ms ! i
          \<or> allowed_edge (status_trace cfg s ms ! i) (status_trace cfg s ms ! Suc i))
   \<and> times_entered Emerging (status_trace cfg s ms) \<le> 1
   \<and> times_entered Emerging (status_trace cfg Emerging ms) = 1"
proof (intro conjI allI impI)
  show "length (status_trace cfg s ms) = Suc (length ms)" by (rule status_trace_length)
  show "status_trace cfg s ms ! Suc i = status_trace cfg s ms ! i
          \<or> allowed_edge (status_trace cfg s ms ! i) (status_trace cfg s ms ! Suc i)"
    if "Suc i < length (status_trace cfg s ms)" for i
    using that by (rule status_trace_steps)
  show "times_entered Emerging (status_trace cfg s ms) \<le> 1"
    by (simp add: times_entered_def entries_Emerging)
  show "times_entered Emerging (status_trace cfg Emerging ms) = 1"
    by (simp add: times_entered_def entries_Emerging status_trace_hd status_trace_nonempty)
qed

theorem trend_edges_witness:
  "allowed_edge
     (status_trace \<lparr>growth_threshold = 1 / 5, zero_band = 1 / 20\<rparr> Emerging
        [1 / 2, 3 / 10, 1 / 100, - 1 / 5, 2 / 5] ! 3)
     (status_trace \<lparr>growth_threshold = 1 / 5, zero_band = 1 / 20\<rparr> Emerging
        [1 / 2, 3 / 10, 1 / 100, - 1 / 5, 2 / 5] ! Suc 3)
   \<and> status_trace \<lparr>growth_threshold = 1 / 5, zero_band = 1 / 20\<rparr> Emerging
        [1 / 2, 3 / 10, 1 / 100, - 1 / 5, 2 / 5] ! 3 = Peak
   \<and> status_trace \<lparr>growth_threshold = 1 / 5, zero_band = 1 / 20\<rparr> Emerging
        [1 / 2, 3 / 10, 1 / 100, - 1 / 5, 2 / 5] ! Suc 3 = Declining
   \<and> times_entered Emerging
        (status_trace \<lparr>growth_threshold = 1 / 5, zero_band = 1 / 20\<rparr> Emerging
           [1 / 2, 3 / 10, 1 / 100, - 1 / 5, 2 / 5]) = 1"
proof -
  let ?c = "\<lparr>growth_threshold = 1 / 5, zero_band = 1 / 20\<rparr>"
  let ?ms = "[1 / 2, 3 / 10, 1 / 100, - 1 / 5, 2 / 5] :: real list"
  have h: "Suc 3 < length (status_trace ?c Emerging ?ms)" by simp
  have n: "status_trace ?c Emerging ?ms ! 3 = Peak"
    "status_trace ?c Emerging ?ms ! Suc 3 = Declining"
    by (simp_all add: trace_example)
  from trend_edges[of ?c Emerging ?ms] h n show ?thesis
    by (metis trend_status.distinct(11))
qed

end
